theory Spec2Isabelle
  imports Main "HOL-Library.Sublist"
begin

section \<open>The attendance page script (static/js/main.js)\<close>

text \<open>
  The repository's source is the browser script of the face-attendance page. The
  script is modelled function by function. Its global variables and the DOM properties
  it writes are the fields of one record, the page; everything it asks of the outside
  (a network request, a timer, the camera, the console, a message box) is appended
  to a log of effects, in program order; what the outside answers (the outcome of a
  request, the camera's frame, the browser's answer to a media request) is an argument
  of the function that awaits it. A handler is modelled as it runs from its call to
  its return: what another handler does to the globals while this one awaits is not
  part of its model.

  Strings are lists of 8-bit characters. The literal texts of the user interface are
  Vietnamese with emoji; they are written here without diacritics and with a bracketed
  ASCII tag for each emoji, and every literal has a definition of its own below, so the
  functions read as the script does.
\<close>

subsection \<open>JavaScript values\<close>

text \<open>
  What \<open>JSON.parse\<close> can return, and \<open>undefined\<close>, which reading a missing
  property gives. An object is the list of its own properties, each name once. The
  number type is a parameter: the script never computes with the numbers of a
  response, it tests and prints them.
\<close>

datatype 'n jsval =
    JUndefined
  | JNull
  | JBool bool
  | JNum 'n
  | JStr string
  | JArr "'n jsval list"
  | JObj "(string \<times> 'n jsval) list"

text \<open>
  The operations of the engine that the model leaves open: how a number prints
  (\<open>String(n)\<close>, \<open>n.toFixed(k)\<close>), which numbers are zero or NaN, what
  \<open>parseInt\<close> reads from a string, and the text of the TypeError the engine raises
  for a failed operation.
\<close>

record 'n engine =
  num_toString :: "'n \<Rightarrow> string"
  num_toFixed :: "'n \<Rightarrow> nat \<Rightarrow> string"
  num_is_zero :: "'n \<Rightarrow> bool"
  num_is_nan :: "'n \<Rightarrow> bool"
  num_parseInt :: "string \<Rightarrow> 'n"
  type_error_message :: "string \<Rightarrow> string"

datatype js_error = JsError (error_name: string) (error_message: string)

definition type_error :: "'n engine \<Rightarrow> string \<Rightarrow> js_error" where
  "type_error eng what = JsError ''TypeError'' (type_error_message eng what)"

text \<open>Truthiness, as \<open>if (v)\<close>, \<open>!v\<close> and \<open>v || w\<close> test it.\<close>

fun truthy :: "'n engine \<Rightarrow> 'n jsval \<Rightarrow> bool" where
  "truthy eng JUndefined = False"
| "truthy eng JNull = False"
| "truthy eng (JBool b) = b"
| "truthy eng (JNum n) = (\<not> num_is_zero eng n \<and> \<not> num_is_nan eng n)"
| "truthy eng (JStr s) = (s \<noteq> [])"
| "truthy eng (JArr xs) = True"
| "truthy eng (JObj kvs) = True"

text \<open>
  Reading a property \<open>v.k\<close>, for the property names of the script's responses
  (none of them is a property of a prototype): an object gives its own property or
  \<open>undefined\<close>, \<open>undefined\<close> and \<open>null\<close> raise a TypeError, every other value
  gives \<open>undefined\<close>.
\<close>

fun get :: "'n engine \<Rightarrow> 'n jsval \<Rightarrow> string \<Rightarrow> js_error + 'n jsval" where
  "get eng JUndefined k = Inl (type_error eng (''read '' @ k @ '' of undefined''))"
| "get eng JNull k = Inl (type_error eng (''read '' @ k @ '' of null''))"
| "get eng (JObj kvs) k = Inr (case map_of kvs k of None \<Rightarrow> JUndefined | Some v \<Rightarrow> v)"
| "get eng v k = Inr JUndefined"

subsection \<open>The page: globals, DOM properties, effects\<close>

type_synonym stream = nat

datatype api = ModernApi | LegacyApi string

datatype body = NoBody | JsonBody "(string \<times> string) list" | FormBody "(string \<times> string) list"

datatype effect =
    ShowMessage string string string
  | Fetch string string body
  | Delay nat
  | GetUserMedia api
  | StopTracks stream
  | ConsoleError string js_error

record 'n page =
  videoStream :: "stream option"
  isWebcamActive :: bool
  enrollEmployeeId :: "'n option"
  enrollCount :: nat
  video_srcObject :: "stream option"
  btn_start_webcam_text :: string
  btn_capture_disabled :: bool
  btn_enroll_capture_disabled :: bool
  btn_retrain_disabled :: bool
  btn_retrain_html :: string
  enroll_progress_show :: bool
  progress_fill :: nat
  progress_text :: string
  employees_table_html :: string
  enroll_select_html :: string
  input_image_value :: string
  effects :: "effect list"

definition ENROLL_TARGET :: nat where
  "ENROLL_TARGET = 10"

definition emit :: "effect list \<Rightarrow> 'n page \<Rightarrow> 'n page" where
  "emit es s = s\<lparr>effects := effects s @ es\<rparr>"

text \<open>
  \<open>showMessage(elementId, message, type)\<close> sets the element's class to
  \<open>info-box <type> show\<close> and its text to the message. The timer that hides the box
  five seconds later is left out.
\<close>

definition showMessage :: "string \<Rightarrow> string \<Rightarrow> string \<Rightarrow> 'n page \<Rightarrow> 'n page" where
  "showMessage elementId message type s = emit [ShowMessage elementId message type] s"

subsection \<open>Webcam\<close>

record location =
  hostname :: string
  protocol :: string
  href :: string

text \<open>
  Which media interfaces the browser has: \<open>mediaDevices\<close> is \<open>None\<close> when
  \<open>navigator.mediaDevices\<close> is missing, and otherwise says whether it has
  \<open>getUserMedia\<close>; the four legacy functions are present or not.
\<close>

record navigator =
  mediaDevices :: "bool option"
  nav_getUserMedia :: bool
  webkitGetUserMedia :: bool
  mozGetUserMedia :: bool
  msGetUserMedia :: bool

datatype support = NotLocalhost | Modern | Legacy | Unsupported

definition isLocalhost :: "location \<Rightarrow> bool" where
  "isLocalhost loc =
     (hostname loc = ''localhost'' \<or>
      hostname loc = ''127.0.0.1'' \<or>
      hostname loc = ''[::1]'' \<or>
      prefix ''127.'' (hostname loc) \<or>
      protocol loc = ''https:'')"

definition has_legacy :: "navigator \<Rightarrow> bool" where
  "has_legacy nav =
     (nav_getUserMedia nav \<or> webkitGetUserMedia nav \<or> mozGetUserMedia nav \<or> msGetUserMedia nav)"

definition checkWebcamSupport :: "location \<Rightarrow> navigator \<Rightarrow> support" where
  "checkWebcamSupport loc nav =
     (if \<not> isLocalhost loc then NotLocalhost
      else if mediaDevices nav = Some True then Modern
      else if has_legacy nav then Legacy
      else Unsupported)"

definition legacy_name :: "navigator \<Rightarrow> string" where
  "legacy_name nav =
     (if nav_getUserMedia nav then ''getUserMedia''
      else if webkitGetUserMedia nav then ''webkitGetUserMedia''
      else if mozGetUserMedia nav then ''mozGetUserMedia''
      else ''msGetUserMedia'')"

definition msg_browser_unsupported :: string where
  "msg_browser_unsupported =
     ''Trinh duyet khong ho tro webcam. Vui long dung Chrome, Firefox, Edge hoac Safari moi nhat.''"

text \<open>
  \<open>getUserMedia(constraints)\<close>: the effects of the call and the promise's outcome.
  \<open>answer\<close> is what the browser settles the promise with when it is asked.
\<close>

definition getUserMedia ::
  "location \<Rightarrow> navigator \<Rightarrow> js_error + stream \<Rightarrow> effect list \<times> (js_error + stream)" where
  "getUserMedia loc nav answer =
     (let support = checkWebcamSupport loc nav in
      if support = Modern then ([GetUserMedia ModernApi], answer)
      else if support = Legacy then ([GetUserMedia (LegacyApi (legacy_name nav))], answer)
      else ([], Inl (JsError ''Error'' msg_browser_unsupported)))"

text \<open>\<open>str.replace(pattern, replacement)\<close> with a string pattern: the first occurrence.\<close>

fun replace_first :: "string \<Rightarrow> string \<Rightarrow> string \<Rightarrow> string" where
  "replace_first pat rep [] = (if pat = [] then rep else [])"
| "replace_first pat rep (c # cs) =
     (if prefix pat (c # cs) then rep @ drop (length pat) (c # cs)
      else c # replace_first pat rep cs)"

definition msg_not_localhost :: "location \<Rightarrow> string" where
  "msg_not_localhost loc =
     ''[x] Webcam chi hoat dong voi localhost hoac HTTPS!\<newline>\<newline>'' @
     ''Ban dang truy cap: '' @ hostname loc @ ''\<newline>\<newline>'' @
     ''-> Vui long truy cap qua:\<newline>'' @
     ''   '' @ replace_first (hostname loc) ''localhost'' (href loc) @ ''\<newline>\<newline>'' @
     ''Hoac dung Upload anh (khong can webcam)''"

definition msg_no_webcam_support :: string where
  "msg_no_webcam_support =
     ''[x] Trinh duyet khong ho tro webcam!\<newline>'' @
     ''Vui long:\<newline>'' @
     ''1. Dung Chrome, Firefox, Edge hoac Safari moi nhat\<newline>'' @
     ''2. Truy cap qua HTTPS hoac localhost\<newline>'' @
     ''3. Cho phep quyen truy cap camera''"

definition msg_webcam_error :: "js_error \<Rightarrow> string" where
  "msg_webcam_error error =
     ''[x] Khong the bat webcam: '' @
     (if error_name error = ''NotAllowedError'' \<or> error_name error = ''PermissionDeniedError'' then
        ''Ban da tu choi quyen truy cap camera. Vui long cho phep trong cai dat trinh duyet.''
      else if error_name error = ''NotFoundError'' \<or> error_name error = ''DevicesNotFoundError'' then
        ''Khong tim thay camera. Vui long kiem tra camera da duoc ket noi.''
      else if error_name error = ''NotReadableError'' \<or> error_name error = ''TrackStartError'' then
        ''Camera dang duoc su dung boi ung dung khac.''
      else if error_name error = ''OverconstrainedError'' \<or>
              error_name error = ''ConstraintNotSatisfiedError'' then
        ''Camera khong ho tro yeu cau.''
      else if error_message error \<noteq> [] then error_message error
      else ''Loi khong xac dinh. Vui long thu lai.'')"

definition stopWebcam :: "'n page \<Rightarrow> 'n page" where
  "stopWebcam s =
     (case videoStream s of
        Some st \<Rightarrow>
          (emit [StopTracks st] s)\<lparr>video_srcObject := None, videoStream := None,
                                   isWebcamActive := False\<rparr>
      | None \<Rightarrow> s)"

definition toggleWebcam ::
  "location \<Rightarrow> navigator \<Rightarrow> js_error + stream \<Rightarrow> 'n page \<Rightarrow> 'n page" where
  "toggleWebcam loc nav answer s =
     (if \<not> isWebcamActive s then
        (let support = checkWebcamSupport loc nav in
         if support = NotLocalhost then
           showMessage ''webcam-result'' (msg_not_localhost loc) ''error'' s
         else if support = Unsupported then
           showMessage ''webcam-result'' msg_no_webcam_support ''error'' s
         else
           (case getUserMedia loc nav answer of
              (es, Inr st) \<Rightarrow>
                showMessage ''webcam-result'' ''[ok] Webcam da bat!'' ''success''
                  ((emit es s)\<lparr>videoStream := Some st, video_srcObject := Some st,
                               isWebcamActive := True,
                               btn_start_webcam_text := ''[stop] Tat Webcam'',
                               btn_capture_disabled := False\<rparr>)
            | (es, Inl error) \<Rightarrow>
                emit [ConsoleError ''Webcam error:'' error]
                  (showMessage ''webcam-result'' (msg_webcam_error error) ''error'' (emit es s))))
      else
        (stopWebcam s)\<lparr>btn_start_webcam_text := ''[video] Bat Webcam'',
                        btn_capture_disabled := True\<rparr>)"

definition media_requests :: "effect list \<Rightarrow> effect list" where
  "media_requests es = filter (\<lambda>e. case e of GetUserMedia a \<Rightarrow> True | _ \<Rightarrow> False) es"

subsection \<open>Printing values\<close>

text \<open>
  \<open>String(v)\<close>, as a template literal applies it to an interpolated value. A parsed
  object prints as \<open>[object Object]\<close>, unless it has a property \<open>toString\<close> of its
  own: that property is not a function, and the conversion raises a TypeError. An array
  prints its elements separated by commas, \<open>null\<close> as the empty string.
\<close>

fun toString :: "'n engine \<Rightarrow> 'n jsval \<Rightarrow> js_error + string"
  and join_elements :: "'n engine \<Rightarrow> 'n jsval list \<Rightarrow> js_error + string" where
  "toString eng JUndefined = Inr ''undefined''"
| "toString eng JNull = Inr ''null''"
| "toString eng (JBool b) = Inr (if b then ''true'' else ''false'')"
| "toString eng (JNum n) = Inr (num_toString eng n)"
| "toString eng (JStr s) = Inr s"
| "toString eng (JArr xs) = join_elements eng xs"
| "toString eng (JObj kvs) =
     (if map_of kvs ''toString'' \<noteq> None
      then Inl (type_error eng ''convert object to primitive value'')
      else Inr ''[object Object]'')"
| "join_elements eng [] = Inr []"
| "join_elements eng (x # xs) =
     (case (if x = JUndefined \<or> x = JNull then Inr [] else toString eng x) of
        Inl e \<Rightarrow> Inl e
      | Inr a \<Rightarrow>
          (if xs = [] then Inr a
           else (case join_elements eng xs of
                   Inl e \<Rightarrow> Inl e
                 | Inr b \<Rightarrow> Inr (a @ '','' @ b))))"

text \<open>\<open>v.toFixed(k)\<close>: only a number has the method.\<close>

fun toFixed :: "'n engine \<Rightarrow> 'n jsval \<Rightarrow> nat \<Rightarrow> js_error + string" where
  "toFixed eng (JNum n) k = Inr (num_toFixed eng n k)"
| "toFixed eng JUndefined k = Inl (type_error eng ''read toFixed of undefined'')"
| "toFixed eng JNull k = Inl (type_error eng ''read toFixed of null'')"
| "toFixed eng v k = Inl (type_error eng ''toFixed is not a function'')"

text \<open>Decimal digits of a counter, as \<open>String(n)\<close> prints a small whole number.\<close>

function show_nat :: "nat \<Rightarrow> string" where
  "show_nat n =
     (if n < 10 then [''0123456789'' ! n]
      else show_nat (n div 10) @ [''0123456789'' ! (n mod 10)])"
  by pat_completeness auto
termination
  by (relation "measure id") auto

declare show_nat.simps [simp del]




subsection \<open>Outcome of a request\<close>

text \<open>
  \<open>await fetch(...)\<close> followed by \<open>await response.json()\<close>: either of the two
  promises rejects with an error, or the body parses to a value. Both rejections reach
  the same \<open>catch\<close>.
\<close>

datatype 'n reply = Rejected js_error | Resolved "'n jsval"

subsection \<open>Enrollment\<close>


text \<open>
  \<open>updateEnrollProgress()\<close>. The width of the progress bar is the text
  \<open>(enrollCount / ENROLL_TARGET) * 100\<close> followed by \<open>%\<close>, a floating-point
  quotient; \<open>progress_fill\<close> keeps the count it is computed from.
\<close>

definition updateEnrollProgress :: "'n page \<Rightarrow> 'n page" where
  "updateEnrollProgress s =
     s\<lparr>progress_fill := enrollCount s,
       progress_text := show_nat (enrollCount s) @ '' / '' @ show_nat ENROLL_TARGET @ '' anh''\<rparr>"

definition id_text :: "'n engine \<Rightarrow> 'n option \<Rightarrow> string" where
  "id_text eng v = (case v of None \<Rightarrow> ''null'' | Some n \<Rightarrow> num_toString eng n)"

definition capture_url :: "'n engine \<Rightarrow> 'n option \<Rightarrow> string" where
  "capture_url eng v = ''/api/employees/'' @ id_text eng v @ ''/capture''"

definition capture_request :: "'n engine \<Rightarrow> 'n option \<Rightarrow> string \<Rightarrow> effect" where
  "capture_request eng ident frame =
     Fetch ''POST'' (capture_url eng ident) (JsonBody [(''image'', frame)])"

definition enroll_failed :: "string \<Rightarrow> 'n page \<Rightarrow> 'n page" where
  "enroll_failed message s =
     (showMessage ''enroll-result'' message ''error'' s)\<lparr>enroll_progress_show := False\<rparr>"

text \<open>
  \<open>captureEnrollImage()\<close>. \<open>frame\<close> is the data URL that \<open>captureFrame()\<close> reads
  from the canvas, \<open>reply\<close> the outcome of the request.
\<close>

definition captureEnrollImage :: "'n engine \<Rightarrow> string \<Rightarrow> 'n reply \<Rightarrow> 'n page \<Rightarrow> 'n page" where
  "captureEnrollImage eng frame reply s =
     (let s1 = emit [capture_request eng (enrollEmployeeId s) frame] s;
          catch = (\<lambda>error. enroll_failed (''[x] Loi: '' @ error_message error) s1)
      in case reply of
           Rejected error \<Rightarrow> catch error
         | Resolved data \<Rightarrow>
             (case get eng data ''success'' of
                Inl error \<Rightarrow> catch error
              | Inr success \<Rightarrow>
                  if truthy eng success then
                    updateEnrollProgress (s1\<lparr>enrollCount := enrollCount s1 + 1\<rparr>)
                  else
                    (case get eng data ''message'' of
                       Inl error \<Rightarrow> catch error
                     | Inr m \<Rightarrow>
                         (case toString eng m of
                            Inl error \<Rightarrow> catch error
                          | Inr message \<Rightarrow> enroll_failed (''[x] '' @ message) s1))))"

text \<open>
  The body of \<open>for (let i = 0; i < ENROLL_TARGET; i++)\<close> in \<open>startEnrollCapture\<close>,
  from iteration \<open>i\<close> on. \<open>world i\<close> is the frame on the canvas and the outcome of
  the request in iteration \<open>i\<close>.
\<close>

function enroll_loop ::
  "'n engine \<Rightarrow> (nat \<Rightarrow> string \<times> 'n reply) \<Rightarrow> nat \<Rightarrow> 'n page \<Rightarrow> 'n page" where
  "enroll_loop eng world i s =
     (if i < ENROLL_TARGET then
        (let s1 = captureEnrollImage eng (fst (world i)) (snd (world i)) (emit [Delay 500] s)
         in if enrollCount s1 \<noteq> i + 1 then s1
            else enroll_loop eng world (i + 1) s1)
      else s)"
  by pat_completeness auto
termination
  by (relation "measure (\<lambda>(eng, world, i, s). ENROLL_TARGET - i)") auto

declare enroll_loop.simps [simp del]

definition msg_collecting :: string where
  "msg_collecting = ''[camera] Dang thu thap anh... Giu khuon mat on dinh!''"

definition msg_enroll_done :: string where
  "msg_enroll_done =
     ''[ok] Hoan thanh! Da thu thap '' @ show_nat ENROLL_TARGET @ '' anh. Hay train lai model!''"

definition not_selected :: "'n engine \<Rightarrow> 'n option \<Rightarrow> bool" where
  "not_selected eng v =
     (case v of None \<Rightarrow> True | Some n \<Rightarrow> num_is_zero eng n \<or> num_is_nan eng n)"

definition startEnrollCapture ::
  "'n engine \<Rightarrow> (nat \<Rightarrow> string \<times> 'n reply) \<Rightarrow> 'n page \<Rightarrow> 'n page" where
  "startEnrollCapture eng world s =
     (if not_selected eng (enrollEmployeeId s) \<or> \<not> isWebcamActive s then
        showMessage ''enroll-result'' ''Vui long chon nhan vien va bat webcam!'' ''error'' s
      else
        (let s1 = showMessage ''enroll-result'' msg_collecting ''info''
                    (s\<lparr>enrollCount := 0, enroll_progress_show := True,
                       btn_enroll_capture_disabled := True\<rparr>);
             s2 = enroll_loop eng world 0 s1;
             s3 = (if enrollCount s2 = ENROLL_TARGET
                   then showMessage ''enroll-result'' msg_enroll_done ''success'' s2
                   else s2)
         in s3\<lparr>btn_enroll_capture_disabled := False\<rparr>))"

text \<open>
  What the properties of the capture run speak about: a capture succeeds when its
  request resolves with a value whose \<open>success\<close> is truthy (the case in which
  \<open>captureEnrollImage\<close> counts it); the effects of one round of the loop up to its
  request, the delay of 500 ms and the request for the selected employee with the
  frame of that round; the effects a function has added to the log; the requests
  among them.
\<close>

definition capture_ok :: "'n engine \<Rightarrow> 'n reply \<Rightarrow> bool" where
  "capture_ok eng reply =
     (case reply of
        Rejected error \<Rightarrow> False
      | Resolved data \<Rightarrow>
          (case get eng data ''success'' of
             Inl error \<Rightarrow> False
           | Inr success \<Rightarrow> truthy eng success))"

definition capture_round ::
  "'n engine \<Rightarrow> 'n option \<Rightarrow> (nat \<Rightarrow> string \<times> 'n reply) \<Rightarrow> nat \<Rightarrow> effect list" where
  "capture_round eng ident world i = [Delay 500, capture_request eng ident (fst (world i))]"

definition new_effects :: "'n page \<Rightarrow> 'n page \<Rightarrow> effect list" where
  "new_effects s s' = drop (length (effects s)) (effects s')"

definition requests :: "effect list \<Rightarrow> effect list" where
  "requests es = filter (\<lambda>e. case e of Fetch m u b \<Rightarrow> True | _ \<Rightarrow> False) es"

subsection \<open>Sequencing operations that may throw\<close>

definition and_then :: "js_error + 'a \<Rightarrow> ('a \<Rightarrow> js_error + 'b) \<Rightarrow> js_error + 'b" where
  "and_then m f = (case m of Inl e \<Rightarrow> Inl e | Inr x \<Rightarrow> f x)"

subsection \<open>Retraining\<close>

definition msg_training :: string where
  "msg_training = ''[wait] Dang train model... Vui long doi (co the mat 30s-1p)''"

definition html_training :: string where
  \<open>html_training = ''<span class="spinner"></span>Dang train...''\<close>

text \<open>
  The success text of \<open>retrainModel\<close>: the template reads \<open>metrics.n_employees\<close>,
  \<open>metrics.n_images\<close> and \<open>metrics.threshold.toFixed(4)\<close>, in this order.
\<close>

definition retrain_success_text :: "'n engine \<Rightarrow> 'n jsval \<Rightarrow> js_error + string" where
  "retrain_success_text eng metrics =
     and_then (get eng metrics ''n_employees'') (\<lambda>v1.
     and_then (toString eng v1) (\<lambda>n_employees.
     and_then (get eng metrics ''n_images'') (\<lambda>v2.
     and_then (toString eng v2) (\<lambda>n_images.
     and_then (get eng metrics ''threshold'') (\<lambda>v3.
     and_then (toFixed eng v3 4) (\<lambda>threshold.
       Inr (''[ok] Train thanh cong! Nhan vien: '' @ n_employees @
            '', Anh: '' @ n_images @ '', Threshold: '' @ threshold)))))))"

text \<open>
  \<open>retrainModel()\<close> in two parts. \<open>retrainModel_request\<close> is the function up to its
  first \<open>await\<close>: the button is disabled, the request sent. \<open>retrainModel_response\<close>
  is the rest, run when the request is settled: the \<open>try\<close> block from the reply on, its
  \<open>catch\<close> and its \<open>finally\<close>; \<open>originalText\<close> is the constant of that name.
\<close>

definition retrainModel_request :: "'n page \<Rightarrow> 'n page" where
  "retrainModel_request s =
     emit [Fetch ''POST'' ''/api/retrain_model'' NoBody]
       (showMessage ''enroll-result'' msg_training ''info''
          (s\<lparr>btn_retrain_disabled := True, btn_retrain_html := html_training\<rparr>))"

definition retrain_try :: "'n engine \<Rightarrow> 'n reply \<Rightarrow> 'n page \<Rightarrow> js_error + 'n page" where
  "retrain_try eng reply s =
     (case reply of
        Rejected error \<Rightarrow> Inl error
      | Resolved data \<Rightarrow>
          and_then (get eng data ''success'') (\<lambda>success.
            if truthy eng success then
              and_then (get eng data ''metrics'') (\<lambda>metrics.
              and_then (retrain_success_text eng metrics) (\<lambda>message.
                Inr (showMessage ''enroll-result'' message ''success'' s)))
            else
              and_then (get eng data ''message'') (\<lambda>m.
              and_then (toString eng m) (\<lambda>message.
                Inr (showMessage ''enroll-result'' (''[x] '' @ message) ''error'' s)))))"

definition retrainModel_response :: "'n engine \<Rightarrow> string \<Rightarrow> 'n reply \<Rightarrow> 'n page \<Rightarrow> 'n page" where
  "retrainModel_response eng originalText reply s =
     (let s1 = (case retrain_try eng reply s of
                  Inr s' \<Rightarrow> s'
                | Inl error \<Rightarrow>
                    showMessage ''enroll-result'' (''[x] Loi: '' @ error_message error) ''error'' s)
      in s1\<lparr>btn_retrain_disabled := False, btn_retrain_html := originalText\<rparr>)"

definition retrainModel :: "'n engine \<Rightarrow> 'n reply \<Rightarrow> 'n page \<Rightarrow> 'n page" where
  "retrainModel eng reply s =
     retrainModel_response eng (btn_retrain_html s) reply (retrainModel_request s)"

subsection \<open>Employee list\<close>

















subsection \<open>Recognition\<close>

text \<open>
  The two interpolations of either template of \<open>displayRecognitionResult\<close>:
  \<open>data.message\<close> and \<open>data.score.toFixed(3)\<close>.
\<close>

definition message_and_score :: "'n engine \<Rightarrow> 'n jsval \<Rightarrow> js_error + string \<times> string" where
  "message_and_score eng data =
     and_then (get eng data ''message'') (\<lambda>m.
     and_then (toString eng m) (\<lambda>message.
     and_then (get eng data ''score'') (\<lambda>sc.
     and_then (toFixed eng sc 3) (\<lambda>score.
       Inr (message, score)))))"

definition displayRecognitionResult ::
  "'n engine \<Rightarrow> string \<Rightarrow> 'n jsval \<Rightarrow> 'n page \<Rightarrow> js_error + 'n page" where
  "displayRecognitionResult eng elementId data s =
     and_then (get eng data ''is_unknown'') (\<lambda>is_unknown.
     and_then
       (if truthy eng is_unknown then
          and_then (message_and_score eng data) (\<lambda>(message, score).
            Inr (''[!] '' @ message @ '' (Score: '' @ score @ '')'', ''warning''))
        else
          and_then (message_and_score eng data) (\<lambda>(message, score).
            Inr (''[ok] '' @ message @ ''\<newline>[chart] Score: '' @ score, ''success'')))
       (\<lambda>(message, type). Inr (showMessage elementId message type s)))"

text \<open>
  The \<open>try\<close> block and the \<open>catch\<close> that \<open>handleUploadSubmit\<close> and
  \<open>captureAndRecognize\<close> share, from the reply on; only the element differs.
  \<open>refresh\<close> stands for \<open>await loadHistory(); await updateStats()\<close>: both catch
  every error of their own, and what they write depends on further replies.
\<close>

definition show_recognition ::
  "'n engine \<Rightarrow> string \<Rightarrow> ('n page \<Rightarrow> 'n page) \<Rightarrow> 'n reply \<Rightarrow> 'n page \<Rightarrow> 'n page" where
  "show_recognition eng elementId refresh reply s =
     (let attempt =
            (case reply of
               Rejected error \<Rightarrow> Inl error
             | Resolved data \<Rightarrow>
                 and_then (get eng data ''success'') (\<lambda>success.
                   if truthy eng success then
                     and_then (displayRecognitionResult eng elementId data s) (\<lambda>s1.
                       Inr (refresh s1))
                   else
                     and_then (get eng data ''message'') (\<lambda>m.
                     and_then (toString eng m) (\<lambda>message.
                       Inr (showMessage elementId (''[x] '' @ message) ''error'' s)))))
      in case attempt of
           Inr s' \<Rightarrow> s'
         | Inl error \<Rightarrow> showMessage elementId (''[x] Loi: '' @ error_message error) ''error'' s)"

definition captureAndRecognize ::
  "'n engine \<Rightarrow> ('n page \<Rightarrow> 'n page) \<Rightarrow> string \<Rightarrow> 'n reply \<Rightarrow> 'n page \<Rightarrow> 'n page" where
  "captureAndRecognize eng refresh frame reply s =
     (if \<not> isWebcamActive s then s
      else
        show_recognition eng ''webcam-result'' refresh reply
          (emit [Fetch ''POST'' ''/api/recognize_webcam'' (JsonBody [(''image'', frame)])]
             (showMessage ''webcam-result'' ''[wait] Dang nhan dien...'' ''info'' s)))"

definition handleUploadSubmit ::
  "'n engine \<Rightarrow> ('n page \<Rightarrow> 'n page) \<Rightarrow> string option \<Rightarrow> 'n reply \<Rightarrow> 'n page \<Rightarrow> 'n page" where
  "handleUploadSubmit eng refresh file reply s =
     (case file of
        None \<Rightarrow> showMessage ''upload-result'' ''Vui long chon anh!'' ''error'' s
      | Some f \<Rightarrow>
          (show_recognition eng ''upload-result'' refresh reply
             (emit [Fetch ''POST'' ''/api/recognize_upload'' (FormBody [(''image'', f)])]
                (showMessage ''upload-result'' ''[wait] Dang nhan dien...'' ''info'' s)))
          \<lparr>input_image_value := []\<rparr>)"

subsection \<open>A concrete engine and a concrete scenario\<close>

text \<open>
  An engine whose numbers are the integers, for evaluating the model on examples. It
  does what JavaScript does on the whole numbers of magnitude below \<open>10^21\<close>, which
  print in decimal and to which \<open>toFixed(k)\<close> appends \<open>k\<close> zeros, and on
  \<open>parseInt\<close> of a string of decimal digits; on larger numbers, fractions, NaN and
  other strings it does not, and the examples stay clear of them.
\<close>

definition parse_digits :: "string \<Rightarrow> int" where
  "parse_digits str = foldl (\<lambda>n c. 10 * n + (int (of_char c) - 48)) 0 str"

definition show_int :: "int \<Rightarrow> string" where
  "show_int i = (if i < 0 then ''-'' @ show_nat (nat (- i)) else show_nat (nat i))"

definition int_engine :: "int engine" where
  "int_engine =
     \<lparr>num_toString = show_int,
      num_toFixed = (\<lambda>n k. show_int n @ (if k = 0 then [] else ''.'' @ replicate k CHR ''0'')),
      num_is_zero = (\<lambda>n. n = 0),
      num_is_nan = (\<lambda>n. False),
      num_parseInt = parse_digits,
      type_error_message = (\<lambda>what. ''cannot '' @ what)\<rparr>"

definition blank_page :: "int page" where
  "blank_page =
     \<lparr>videoStream = None, isWebcamActive = False, enrollEmployeeId = None, enrollCount = 0,
      video_srcObject = None, btn_start_webcam_text = ''[video] Bat Webcam'',
      btn_capture_disabled = True, btn_enroll_capture_disabled = True,
      btn_retrain_disabled = False, btn_retrain_html = ''Train'',
      enroll_progress_show = False, progress_fill = 0, progress_text = [],
      employees_table_html = [], enroll_select_html = [], input_image_value = [],
      effects = []\<rparr>"






section \<open>The recognition core, as the specification describes it\<close>

text \<open>
  The server side (Model Registry, Recognition Engine, Retrain Orchestrator) is not
  among the sources. The definitions of this section follow the specification's
  sections 3 and 4.2 to 4.6.
\<close>

datatype core_error =
    NoFaceDetected
  | MultipleFacesDetected
  | InsufficientData
  | RetrainInProgress
  | NotReady

text \<open>
  Modelled from the spec: the metrics of a ModelArtifact (employee count, sample count,
  threshold value); the Trainer that fills them is missing.
\<close>

record 'sc metrics =
  employee_count :: nat
  sample_count :: nat
  threshold_value :: 'sc

text \<open>
  Modelled from the spec: the ModelArtifact, an immutable bundle of the reduction basis
  (here the projection it performs), the classifier (predicted label and score), the
  decision decision_threshold and the metrics; the Trainer that produces it is missing.
\<close>

record ('v, 'p, 'l, 'sc) artifact =
  basis :: "'v \<Rightarrow> 'p"
  classifier :: "'p \<Rightarrow> 'l \<times> 'sc"
  decision_threshold :: 'sc
  artifact_metrics :: "'sc metrics"

text \<open>
  Modelled from the spec: the state of the core, the Model Registry's reference to the
  active artifact (unset at startup) and the Retrain Orchestrator's single-flight lock;
  both components are missing.
\<close>

record ('v, 'p, 'l, 'sc) core =
  active_artifact :: "('v, 'p, 'l, 'sc) artifact option"
  retrain_running :: bool

definition startup :: "('v, 'p, 'l, 'sc) core" where
  "startup = \<lparr>active_artifact = None, retrain_running = False\<rparr>"

text \<open>
  Modelled from the spec: the Model Registry's \<open>getActive\<close>, which returns
  \<open>NotReady\<close> when no artifact has ever been published; the Registry is missing.
\<close>

definition getActive :: "('v, 'p, 'l, 'sc) core \<Rightarrow> core_error + ('v, 'p, 'l, 'sc) artifact" where
  "getActive c = (case active_artifact c of None \<Rightarrow> Inl NotReady | Some a \<Rightarrow> Inr a)"

text \<open>
  Modelled from the spec: the Model Registry's \<open>publish\<close>, which replaces the
  reference to the active artifact; the Registry is missing.
\<close>

definition publish :: "('v, 'p, 'l, 'sc) artifact \<Rightarrow> ('v, 'p, 'l, 'sc) core \<Rightarrow> ('v, 'p, 'l, 'sc) core" where
  "publish a c = c\<lparr>active_artifact := Some a\<rparr>"

datatype 'l decision = Known 'l | Unknown

record ('l, 'sc) recognition_result =
  predicted :: "'l decision"
  result_score :: 'sc
  threshold_used :: 'sc

text \<open>
  Modelled from the spec: the Recognition Engine's \<open>recognize\<close>, which uses the
  artifact that is active at call start (\<open>NotReady\<close> when there is none) and then
  runs Encode, Project, Classify and ThresholdCompare; the Engine is missing. The Face Encoder \<open>encode\<close> and the test
  \<open>clears\<close> (the score clears the threshold) are parameters.
\<close>

definition recognize ::
  "('i \<Rightarrow> core_error + 'v) \<Rightarrow> ('sc \<Rightarrow> 'sc \<Rightarrow> bool) \<Rightarrow> ('v, 'p, 'l, 'sc) core \<Rightarrow> 'i \<Rightarrow>
     core_error + ('l, 'sc) recognition_result" where
  "recognize encode clears c img =
     (case getActive c of
        Inl e \<Rightarrow> Inl e
      | Inr a \<Rightarrow>
          (case encode img of
             Inl e \<Rightarrow> Inl e
           | Inr v \<Rightarrow>
               (case classifier a (basis a v) of
                  (label, sc) \<Rightarrow>
                    Inr \<lparr>predicted = (if clears sc (decision_threshold a) then Known label else Unknown),
                         result_score = sc, threshold_used = decision_threshold a\<rparr>)))"

text \<open>
  Modelled from the spec: the Retrain Orchestrator, which is missing. A \<open>retrain()\<close>
  request that arrives while a run is in progress is rejected with
  \<open>RetrainInProgress\<close>; otherwise it takes the lock and the run starts.
\<close>

definition retrain_request :: "('v, 'p, 'l, 'sc) core \<Rightarrow> (core_error + unit) \<times> ('v, 'p, 'l, 'sc) core" where
  "retrain_request c =
     (if retrain_running c then (Inl RetrainInProgress, c)
      else (Inr (), c\<lparr>retrain_running := True\<rparr>))"

text \<open>
  Modelled from the spec: the end of the Retrain Orchestrator's run, which is missing.
  On the Trainer's success the artifact is published and its metrics returned; on its
  failure the active artifact stays; the lock is released either way.
\<close>

definition retrain_finish ::
  "core_error + ('v, 'p, 'l, 'sc) artifact \<Rightarrow> ('v, 'p, 'l, 'sc) core \<Rightarrow>
     (core_error + 'sc metrics) \<times> ('v, 'p, 'l, 'sc) core" where
  "retrain_finish trained c =
     (case trained of
        Inr a \<Rightarrow> (Inr (artifact_metrics a), (publish a c)\<lparr>retrain_running := False\<rparr>)
      | Inl e \<Rightarrow> (Inl e, c\<lparr>retrain_running := False\<rparr>))"

text \<open>
  Modelled from the spec: the enrollment readiness policy of the Enrollment Store,
  which is missing. A training set is a list of samples, each an employee label with
  a feature vector; the samples that take part in training are those of the employees
  with at least the minimum number of samples.
\<close>

definition eligible :: "nat \<Rightarrow> ('l \<times> 'v) list \<Rightarrow> ('l \<times> 'v) list" where
  "eligible min_samples ts =
     filter (\<lambda>(l, v). min_samples \<le> length (filter (\<lambda>(l', v'). l' = l) ts)) ts"

text \<open>
  Modelled from the spec: the Model Trainer's \<open>train\<close>, which is missing. It fails
  with \<open>InsufficientData\<close> when fewer than two distinct employees have eligible
  samples; otherwise it fits the basis and the classifier, calibrates the threshold and
  bundles them with the metrics: employee count, sample count and the chosen threshold.
  Fitting (\<open>fit\<close>) and calibration (\<open>calibrate\<close>) are parameters.
\<close>

definition train ::
  "(('l \<times> 'v) list \<Rightarrow> ('v \<Rightarrow> 'p) \<times> ('p \<Rightarrow> 'l \<times> 'sc)) \<Rightarrow>
   (('v \<Rightarrow> 'p) \<Rightarrow> ('p \<Rightarrow> 'l \<times> 'sc) \<Rightarrow> ('l \<times> 'v) list \<Rightarrow> 'sc) \<Rightarrow>
   nat \<Rightarrow> ('l \<times> 'v) list \<Rightarrow> core_error + ('v, 'p, 'l, 'sc) artifact" where
  "train fit calibrate min_samples ts =
     (let samples = eligible min_samples ts;
          labels = remdups (map fst samples)
      in if length labels < 2 then Inl InsufficientData
         else (case fit samples of
                 (b, cl) \<Rightarrow>
                   (let thr = calibrate b cl samples
                    in Inr \<lparr>basis = b, classifier = cl, decision_threshold = thr,
                            artifact_metrics =
                              \<lparr>employee_count = length labels,
                               sample_count = length samples,
                               threshold_value = thr\<rparr>\<rparr>)))"

text \<open>
  Modelled from the spec: the Retrain Orchestrator's \<open>retrain()\<close> as one call, which
  is missing: the request, then the Trainer on the snapshot of the training set, then
  the end of the run.
\<close>

definition retrain ::
  "(('l \<times> 'v) list \<Rightarrow> ('v \<Rightarrow> 'p) \<times> ('p \<Rightarrow> 'l \<times> 'sc)) \<Rightarrow>
   (('v \<Rightarrow> 'p) \<Rightarrow> ('p \<Rightarrow> 'l \<times> 'sc) \<Rightarrow> ('l \<times> 'v) list \<Rightarrow> 'sc) \<Rightarrow>
   nat \<Rightarrow> ('l \<times> 'v) list \<Rightarrow> ('v, 'p, 'l, 'sc) core \<Rightarrow>
   (core_error + 'sc metrics) \<times> ('v, 'p, 'l, 'sc) core" where
  "retrain fit calibrate min_samples ts c =
     (case retrain_request c of
        (Inl e, c1) \<Rightarrow> (Inl e, c1)
      | (Inr u, c1) \<Rightarrow> retrain_finish (train fit calibrate min_samples ts) c1)"

text \<open>
  Modelled from the spec: what can happen to the core between two recognitions, a
  retrain request or the end of a run with the Trainer's outcome; the components that
  do it are missing.
\<close>

datatype ('v, 'p, 'l, 'sc) core_event =
    RetrainRequested
  | TrainerFinished "core_error + ('v, 'p, 'l, 'sc) artifact"

text \<open>Modelled from the spec: the core after a sequence of such events.\<close>

fun core_after ::
  "('v, 'p, 'l, 'sc) core_event list \<Rightarrow> ('v, 'p, 'l, 'sc) core \<Rightarrow> ('v, 'p, 'l, 'sc) core" where
  "core_after [] c = c"
| "core_after (RetrainRequested # es) c = core_after es (snd (retrain_request c))"
| "core_after (TrainerFinished trained # es) c = core_after es (snd (retrain_finish trained c))"

text \<open>Modelled from the spec: a run of the Trainer that succeeded.\<close>

fun trainer_succeeded :: "('v, 'p, 'l, 'sc) core_event \<Rightarrow> bool" where
  "trainer_succeeded (TrainerFinished (Inr a)) = True"
| "trainer_succeeded e = False"

section \<open>Properties of the page script\<close>

subsection \<open>Effects\<close>

lemma effects_emit: "effects (emit es s) = effects s @ es"
  by (simp add: emit_def)

lemma effects_showMessage: "effects (showMessage el m t s) = effects s @ [ShowMessage el m t]"
  by (simp add: showMessage_def emit_def)

subsection \<open>The origin check of the webcam\<close>

lemma media_requests_append: "media_requests (xs @ ys) = media_requests xs @ media_requests ys"
  by (simp add: media_requests_def)

lemma media_requests_stopWebcam:
  "media_requests (effects (stopWebcam s)) = media_requests (effects s)"
  by (simp add: stopWebcam_def emit_def media_requests_def split: option.splits)

lemma startsWith_127: "prefix ''127.'' h \<longleftrightarrow> take 4 h = ''127.''"
proof
  assume "prefix ''127.'' h"
  then obtain r where "h = ''127.'' @ r" by (auto simp: prefix_def)
  then show "take 4 h = ''127.''" by simp
next
  assume "take 4 h = ''127.''"
  then have "h = ''127.'' @ drop 4 h" by (metis append_take_drop_id)
  then show "prefix ''127.'' h" by (metis prefixI)
qed

lemma origin_check: "checkWebcamSupport loc nav = NotLocalhost \<longleftrightarrow> \<not> isLocalhost loc"
  by (simp add: checkWebcamSupport_def)

lemma toggle_no_request:
  "checkWebcamSupport loc nav = NotLocalhost \<Longrightarrow>
   media_requests (effects (toggleWebcam loc nav answer s)) = media_requests (effects s)"
  by (cases "isWebcamActive s")
     (simp_all add: toggleWebcam_def effects_showMessage media_requests_append
        media_requests_stopWebcam,
      simp add: media_requests_def)

lemma toggle_abort:
  "checkWebcamSupport loc nav = NotLocalhost \<Longrightarrow> \<not> isWebcamActive s \<Longrightarrow>
   toggleWebcam loc nav answer s = showMessage ''webcam-result'' (msg_not_localhost loc) ''error'' s"
  by (simp add: toggleWebcam_def)

lemma toggle_requests_once:
  assumes "\<not> isWebcamActive s"
    and "checkWebcamSupport loc nav = Modern \<or> checkWebcamSupport loc nav = Legacy"
  shows "media_requests (effects (toggleWebcam loc nav answer s)) =
     media_requests (effects s) @
     [GetUserMedia (if checkWebcamSupport loc nav = Modern then ModernApi
                    else LegacyApi (legacy_name nav))]"
proof (cases answer)
  case (Inl error)
  with assms show ?thesis
    by (auto simp: toggleWebcam_def getUserMedia_def effects_showMessage effects_emit
        media_requests_append Let_def)
       (simp_all add: media_requests_def)
next
  case (Inr st)
  with assms show ?thesis
    by (auto simp: toggleWebcam_def getUserMedia_def effects_showMessage effects_emit
        media_requests_append Let_def)
       (simp_all add: media_requests_def)
qed

text \<open>
  Claim C9. The origin passes the check of \<open>checkWebcamSupport\<close> exactly when the
  hostname is \<open>localhost\<close>, \<open>127.0.0.1\<close> or \<open>[::1]\<close>, or starts with \<open>127.\<close>, or
  the protocol is \<open>https:\<close>. For every other origin \<open>checkWebcamSupport\<close> returns
  \<open>not_localhost\<close>, and \<open>toggleWebcam\<close> then asks the browser for no media stream:
  with the webcam off it only shows the error message and returns. On an origin that
  passes, in a browser that has a media interface, \<open>toggleWebcam\<close> with the webcam
  off asks for the stream once.
\<close>

theorem webcam_origin_check:
  fixes s :: "'n page"
  shows "(checkWebcamSupport loc nav = NotLocalhost \<longleftrightarrow>
           \<not> (hostname loc = ''localhost'' \<or> hostname loc = ''127.0.0.1'' \<or>
              hostname loc = ''[::1]'' \<or> take 4 (hostname loc) = ''127.'' \<or>
              protocol loc = ''https:'')) \<and>
         (checkWebcamSupport loc nav = NotLocalhost \<longrightarrow>
            media_requests (effects (toggleWebcam loc nav answer s)) = media_requests (effects s) \<and>
            (\<not> isWebcamActive s \<longrightarrow>
               toggleWebcam loc nav answer s =
                 showMessage ''webcam-result'' (msg_not_localhost loc) ''error'' s)) \<and>
         (\<not> isWebcamActive s \<and>
          (checkWebcamSupport loc nav = Modern \<or> checkWebcamSupport loc nav = Legacy) \<longrightarrow>
            media_requests (effects (toggleWebcam loc nav answer s)) =
              media_requests (effects s) @
              [GetUserMedia (if checkWebcamSupport loc nav = Modern then ModernApi
                             else LegacyApi (legacy_name nav))])"
proof (intro conjI impI)
  show "checkWebcamSupport loc nav = NotLocalhost \<longleftrightarrow>
           \<not> (hostname loc = ''localhost'' \<or> hostname loc = ''127.0.0.1'' \<or>
              hostname loc = ''[::1]'' \<or> take 4 (hostname loc) = ''127.'' \<or>
              protocol loc = ''https:'')"
    unfolding origin_check isLocalhost_def startsWith_127 by (rule refl)
next
  assume "checkWebcamSupport loc nav = NotLocalhost"
  then show "media_requests (effects (toggleWebcam loc nav answer s)) = media_requests (effects s)"
    by (rule toggle_no_request)
next
  assume "checkWebcamSupport loc nav = NotLocalhost" "\<not> isWebcamActive s"
  then show "toggleWebcam loc nav answer s =
                 showMessage ''webcam-result'' (msg_not_localhost loc) ''error'' s"
    by (rule toggle_abort)
next
  assume "\<not> isWebcamActive s \<and>
          (checkWebcamSupport loc nav = Modern \<or> checkWebcamSupport loc nav = Legacy)"
  then show "media_requests (effects (toggleWebcam loc nav answer s)) =
              media_requests (effects s) @
              [GetUserMedia (if checkWebcamSupport loc nav = Modern then ModernApi
                             else LegacyApi (legacy_name nav))]"
    using toggle_requests_once [of s loc nav answer] by blast
qed

text \<open>
  A browser that has the modern interface: the page served from
  \<open>http://192.168.1.5:5000/\<close> fails the check, requests no stream and shows the
  message; the page served from \<open>http://localhost:5000/\<close> requests the stream.
\<close>

theorem webcam_origin_check_witness:
  "checkWebcamSupport
     \<lparr>hostname = ''192.168.1.5'', protocol = ''http:'', href = ''http://192.168.1.5:5000/''\<rparr>
     \<lparr>mediaDevices = Some True, nav_getUserMedia = False, webkitGetUserMedia = False,
      mozGetUserMedia = False, msGetUserMedia = False\<rparr> = NotLocalhost \<and>
   effects (toggleWebcam
     \<lparr>hostname = ''192.168.1.5'', protocol = ''http:'', href = ''http://192.168.1.5:5000/''\<rparr>
     \<lparr>mediaDevices = Some True, nav_getUserMedia = False, webkitGetUserMedia = False,
      mozGetUserMedia = False, msGetUserMedia = False\<rparr> (Inr 1) blank_page) =
     [ShowMessage ''webcam-result''
        (msg_not_localhost
           \<lparr>hostname = ''192.168.1.5'', protocol = ''http:'', href = ''http://192.168.1.5:5000/''\<rparr>)
        ''error''] \<and>
   media_requests (effects (toggleWebcam
     \<lparr>hostname = ''localhost'', protocol = ''http:'', href = ''http://localhost:5000/''\<rparr>
     \<lparr>mediaDevices = Some True, nav_getUserMedia = False, webkitGetUserMedia = False,
      mozGetUserMedia = False, msGetUserMedia = False\<rparr> (Inr 1) blank_page)) =
     [GetUserMedia ModernApi]"
  using webcam_origin_check [of
     "\<lparr>hostname = ''192.168.1.5'', protocol = ''http:'', href = ''http://192.168.1.5:5000/''\<rparr>"
     "\<lparr>mediaDevices = Some True, nav_getUserMedia = False, webkitGetUserMedia = False,
      mozGetUserMedia = False, msGetUserMedia = False\<rparr>" "Inr 1" blank_page]
    webcam_origin_check [of
     "\<lparr>hostname = ''localhost'', protocol = ''http:'', href = ''http://localhost:5000/''\<rparr>"
     "\<lparr>mediaDevices = Some True, nav_getUserMedia = False, webkitGetUserMedia = False,
      mozGetUserMedia = False, msGetUserMedia = False\<rparr>" "Inr 1" blank_page]
  by (simp add: blank_page_def media_requests_def showMessage_def emit_def
      checkWebcamSupport_def isLocalhost_def)

subsection \<open>Retraining\<close>



text \<open>
  The caller's side of the retrain result. When the response reports success and its
  metrics carry the employee count, the image count and the threshold, \<open>retrainModel\<close>
  reads all three and shows them in the success message.
\<close>

lemma retrainModel_shows_metrics:
  assumes "get eng data ''success'' = Inr ok" and "truthy eng ok"
    and "get eng data ''metrics'' = Inr metrics"
    and "get eng metrics ''n_employees'' = Inr (JNum e)"
    and "get eng metrics ''n_images'' = Inr (JNum n)"
    and "get eng metrics ''threshold'' = Inr (JNum t)"
  shows "retrainModel eng (Resolved data) s =
     (showMessage ''enroll-result''
        (''[ok] Train thanh cong! Nhan vien: '' @ num_toString eng e @
         '', Anh: '' @ num_toString eng n @ '', Threshold: '' @ num_toFixed eng t 4)
        ''success'' (retrainModel_request s))
     \<lparr>btn_retrain_disabled := False, btn_retrain_html := btn_retrain_html s\<rparr>"
  using assms
  by (simp add: retrainModel_def retrainModel_response_def retrain_try_def
      retrain_success_text_def and_then_def)

lemma replicate_4: "replicate 4 x = [x, x, x, x]"
  by (simp add: numeral_eq_Suc)

text \<open>Three employees, thirty images, threshold 1.\<close>

lemma retrainModel_shows_metrics_example:
  "effects (retrainModel int_engine
     (Resolved (JObj [(''success'', JBool True),
                      (''metrics'', JObj [(''n_employees'', JNum 3), (''n_images'', JNum 30),
                                          (''threshold'', JNum 1)])])) blank_page) =
   [ShowMessage ''enroll-result'' msg_training ''info'',
    Fetch ''POST'' ''/api/retrain_model'' NoBody,
    ShowMessage ''enroll-result''
      ''[ok] Train thanh cong! Nhan vien: 3, Anh: 30, Threshold: 1.0000'' ''success'']"
  using retrainModel_shows_metrics [of int_engine
     "JObj [(''success'', JBool True),
            (''metrics'', JObj [(''n_employees'', JNum 3), (''n_images'', JNum 30),
                                (''threshold'', JNum 1)])]"
     "JBool True"
     "JObj [(''n_employees'', JNum 3), (''n_images'', JNum 30), (''threshold'', JNum 1)]"
     3 30 1 blank_page]
  by (simp add: int_engine_def show_int_def show_nat.simps replicate_4
      retrainModel_request_def showMessage_def emit_def blank_page_def)

text \<open>
  The script itself does not check the metrics: a response that reports success
  without them makes the template throw, and the error is what the page shows.
\<close>

lemma retrainModel_without_metrics:
  "effects (retrainModel int_engine
     (Resolved (JObj [(''success'', JBool True), (''metrics'', JObj [])])) blank_page) =
   [ShowMessage ''enroll-result'' msg_training ''info'',
    Fetch ''POST'' ''/api/retrain_model'' NoBody,
    ShowMessage ''enroll-result'' ''[x] Loi: cannot read toFixed of undefined'' ''error'']"
  by (simp add: retrainModel_def retrainModel_response_def retrain_try_def
      retrain_success_text_def and_then_def retrainModel_request_def showMessage_def emit_def
      blank_page_def int_engine_def type_error_def)

subsection \<open>Recognition results\<close>

lemma message_and_score_ok:
  "get eng data ''message'' = Inr mv \<Longrightarrow> toString eng mv = Inr m \<Longrightarrow>
   get eng data ''score'' = Inr (JNum n) \<Longrightarrow>
   message_and_score eng data = Inr (m, num_toFixed eng n 3)"
  by (simp add: message_and_score_def and_then_def)

lemma display_unknown:
  "get eng data ''is_unknown'' = Inr u \<Longrightarrow> truthy eng u \<Longrightarrow>
   displayRecognitionResult eng el data s =
     (case message_and_score eng data of
        Inl e \<Rightarrow> Inl e
      | Inr (m, sc) \<Rightarrow>
          Inr (showMessage el (''[!] '' @ m @ '' (Score: '' @ sc @ '')'') ''warning'' s))"
  by (simp add: displayRecognitionResult_def and_then_def split: sum.splits prod.splits)

lemma show_recognition_success:
  "get eng data ''success'' = Inr ok \<Longrightarrow> truthy eng ok \<Longrightarrow>
   show_recognition eng el refresh (Resolved data) s =
     (case displayRecognitionResult eng el data s of
        Inr s1 \<Rightarrow> refresh s1
      | Inl e \<Rightarrow> showMessage el (''[x] Loi: '' @ error_message e) ''error'' s)"
  by (simp add: show_recognition_def and_then_def split: sum.splits)

lemma toFixed_not_number:
  "(\<forall>n. v \<noteq> JNum n) \<Longrightarrow> \<exists>e. toFixed eng v k = Inl e"
  by (cases v) simp_all

lemma message_and_score_unscored:
  assumes "\<forall>n. get eng data ''score'' \<noteq> Inr (JNum n)"
  shows "\<exists>e. message_and_score eng data = Inl e"
proof (cases "get eng data ''message''")
  case (Inl e)
  then show ?thesis by (simp add: message_and_score_def and_then_def)
next
  case mv: (Inr mv)
  show ?thesis
  proof (cases "toString eng mv")
    case (Inl e)
    with mv show ?thesis by (simp add: message_and_score_def and_then_def)
  next
    case m: (Inr m)
    show ?thesis
    proof (cases "get eng data ''score''")
      case (Inl e)
      with mv m show ?thesis by (simp add: message_and_score_def and_then_def)
    next
      case (Inr sc)
      with assms have "\<forall>n. sc \<noteq> JNum n" by simp
      then obtain e where "toFixed eng sc 3 = Inl e"
        using toFixed_not_number by blast
      with mv m Inr show ?thesis by (simp add: message_and_score_def and_then_def)
    qed
  qed
qed

lemma show_recognition_unknown_scored:
  assumes ok: "get eng data ''success'' = Inr ok" "truthy eng ok"
    and u: "get eng data ''is_unknown'' = Inr u" "truthy eng u"
    and a: "get eng data ''message'' = Inr mv" "toString eng mv = Inr m"
           "get eng data ''score'' = Inr (JNum n)"
  shows "show_recognition eng el refresh (Resolved data) s =
           refresh (showMessage el (''[!] '' @ m @ '' (Score: '' @ num_toFixed eng n 3 @ '')'')
                      ''warning'' s)"
proof -
  have "message_and_score eng data = Inr (m, num_toFixed eng n 3)"
    using a by (rule message_and_score_ok)
  then have "displayRecognitionResult eng el data s =
      Inr (showMessage el (''[!] '' @ m @ '' (Score: '' @ num_toFixed eng n 3 @ '')'')
             ''warning'' s)"
    unfolding display_unknown [OF u] by simp
  then show ?thesis
    unfolding show_recognition_success [OF ok] by simp
qed

lemma show_recognition_unknown_unscored:
  assumes ok: "get eng data ''success'' = Inr ok" "truthy eng ok"
    and u: "get eng data ''is_unknown'' = Inr u" "truthy eng u"
    and ns: "\<forall>n. get eng data ''score'' \<noteq> Inr (JNum n)"
  shows "\<exists>e. show_recognition eng el refresh (Resolved data) s =
              showMessage el (''[x] Loi: '' @ error_message e) ''error'' s"
proof -
  obtain e where "message_and_score eng data = Inl e"
    using message_and_score_unscored [OF ns] by blast
  then have "displayRecognitionResult eng el data s = Inl e"
    unfolding display_unknown [OF u] by simp
  then have "show_recognition eng el refresh (Resolved data) s =
               showMessage el (''[x] Loi: '' @ error_message e) ''error'' s"
    unfolding show_recognition_success [OF ok] by simp
  then show ?thesis by blast
qed

text \<open>
  The caller's side of a recognition result. A response that reports success and is
  flagged \<open>is_unknown\<close> is shown as a warning that carries the score, printed with
  three decimals, and not as an error; the history and the statistics are refreshed as
  for a recognised employee. When such a response has no numeric score, the script
  shows an error instead of the result.
\<close>

lemma show_recognition_unknown:
  assumes ok: "get eng data ''success'' = Inr ok" "truthy eng ok"
    and u: "get eng data ''is_unknown'' = Inr u" "truthy eng u"
  shows "(\<forall>mv m n. get eng data ''message'' = Inr mv \<and> toString eng mv = Inr m \<and>
              get eng data ''score'' = Inr (JNum n) \<longrightarrow>
            show_recognition eng el refresh (Resolved data) s =
              refresh (showMessage el (''[!] '' @ m @ '' (Score: '' @ num_toFixed eng n 3 @ '')'')
                         ''warning'' s)) \<and>
         ((\<forall>n. get eng data ''score'' \<noteq> Inr (JNum n)) \<longrightarrow>
            (\<exists>e. show_recognition eng el refresh (Resolved data) s =
                   showMessage el (''[x] Loi: '' @ error_message e) ''error'' s))"
proof (intro conjI allI impI)
  fix mv m n
  assume a: "get eng data ''message'' = Inr mv \<and> toString eng mv = Inr m \<and>
              get eng data ''score'' = Inr (JNum n)"
  from a have a1: "get eng data ''message'' = Inr mv" by (rule conjunct1)
  from a have a2: "toString eng mv = Inr m" by (elim conjE)
  from a have a3: "get eng data ''score'' = Inr (JNum n)" by (elim conjE)
  show "show_recognition eng el refresh (Resolved data) s =
              refresh (showMessage el (''[!] '' @ m @ '' (Score: '' @ num_toFixed eng n 3 @ '')'')
                         ''warning'' s)"
    by (rule show_recognition_unknown_scored [OF ok u a1 a2 a3])
next
  assume "\<forall>n. get eng data ''score'' \<noteq> Inr (JNum n)"
  then show "\<exists>e. show_recognition eng el refresh (Resolved data) s =
                   showMessage el (''[x] Loi: '' @ error_message e) ''error'' s"
    by (rule show_recognition_unknown_unscored [OF ok u])
qed

text \<open>An unknown face with score 42, on the webcam's result box.\<close>

lemma show_recognition_unknown_example:
  "show_recognition int_engine ''webcam-result'' id
     (Resolved (JObj [(''success'', JBool True), (''is_unknown'', JBool True),
                      (''message'', JStr ''Unknown''), (''score'', JNum 42)])) blank_page =
   showMessage ''webcam-result'' ''[!] Unknown (Score: 42.000)'' ''warning'' blank_page"
  using show_recognition_unknown [of int_engine
     "JObj [(''success'', JBool True), (''is_unknown'', JBool True),
            (''message'', JStr ''Unknown''), (''score'', JNum 42)]" "JBool True" "JBool True"
     "''webcam-result''" id blank_page,
     THEN conjunct1, rule_format, of "JStr ''Unknown''" "''Unknown''" 42]
  by (simp add: int_engine_def show_int_def show_nat.simps numeral_3_eq_3)

text \<open>The same for the two handlers that show a recognition result.\<close>

lemma captureAndRecognize_unknown:
  assumes "isWebcamActive s"
    and "get eng data ''success'' = Inr ok" "truthy eng ok"
    and "get eng data ''is_unknown'' = Inr u" "truthy eng u"
    and "get eng data ''message'' = Inr mv" "toString eng mv = Inr m"
    and "get eng data ''score'' = Inr (JNum n)"
  shows "captureAndRecognize eng refresh frame (Resolved data) s =
     refresh (showMessage ''webcam-result''
                (''[!] '' @ m @ '' (Score: '' @ num_toFixed eng n 3 @ '')'') ''warning''
                (emit [Fetch ''POST'' ''/api/recognize_webcam'' (JsonBody [(''image'', frame)])]
                   (showMessage ''webcam-result'' ''[wait] Dang nhan dien...'' ''info'' s)))"
  unfolding captureAndRecognize_def
  using assms(1) show_recognition_unknown_scored [OF assms(2-8)] by simp

lemma handleUploadSubmit_unknown:
  assumes "get eng data ''success'' = Inr ok" "truthy eng ok"
    and "get eng data ''is_unknown'' = Inr u" "truthy eng u"
    and "get eng data ''message'' = Inr mv" "toString eng mv = Inr m"
    and "get eng data ''score'' = Inr (JNum n)"
  shows "handleUploadSubmit eng refresh (Some f) (Resolved data) s =
     (refresh (showMessage ''upload-result''
                 (''[!] '' @ m @ '' (Score: '' @ num_toFixed eng n 3 @ '')'') ''warning''
                 (emit [Fetch ''POST'' ''/api/recognize_upload'' (FormBody [(''image'', f)])]
                    (showMessage ''upload-result'' ''[wait] Dang nhan dien...'' ''info'' s))))
     \<lparr>input_image_value := []\<rparr>"
  unfolding handleUploadSubmit_def
  using show_recognition_unknown_scored [OF assms] by simp

subsection \<open>The enrollment selector\<close>

























subsection \<open>The enrollment capture run\<close>

lemma capture_ok_step:
  "capture_ok eng reply \<Longrightarrow>
   captureEnrollImage eng frame reply s =
     updateEnrollProgress
       ((emit [capture_request eng (enrollEmployeeId s) frame] s)\<lparr>enrollCount := enrollCount s + 1\<rparr>)"
  by (cases reply)
     (auto simp: capture_ok_def captureEnrollImage_def Let_def emit_def split: sum.splits)

lemma capture_fail_step:
  assumes "\<not> capture_ok eng reply"
  shows "\<exists>text. captureEnrollImage eng frame reply s =
           enroll_failed text (emit [capture_request eng (enrollEmployeeId s) frame] s)"
proof (cases reply)
  case (Rejected error)
  then show ?thesis by (auto simp: captureEnrollImage_def Let_def)
next
  case (Resolved data)
  show ?thesis
  proof (cases "get eng data ''success''")
    case (Inl error)
    with Resolved show ?thesis by (auto simp: captureEnrollImage_def Let_def)
  next
    case ok: (Inr success)
    with assms Resolved have nt: "\<not> truthy eng success" by (simp add: capture_ok_def)
    show ?thesis
    proof (cases "get eng data ''message''")
      case (Inl error)
      with Resolved ok nt show ?thesis by (auto simp: captureEnrollImage_def Let_def)
    next
      case m: (Inr m)
      show ?thesis
      proof (cases "toString eng m")
        case (Inl error)
        with Resolved ok nt m show ?thesis by (auto simp: captureEnrollImage_def Let_def)
      next
        case (Inr message)
        with Resolved ok nt m show ?thesis by (auto simp: captureEnrollImage_def Let_def)
      qed
    qed
  qed
qed

lemma ok_step_fields:
  assumes "capture_ok eng reply"
  shows "enrollCount (captureEnrollImage eng frame reply s) = enrollCount s + 1"
    and "enrollEmployeeId (captureEnrollImage eng frame reply s) = enrollEmployeeId s"
    and "isWebcamActive (captureEnrollImage eng frame reply s) = isWebcamActive s"
    and "effects (captureEnrollImage eng frame reply s) =
           effects s @ [capture_request eng (enrollEmployeeId s) frame]"
  by (simp_all add: capture_ok_step [OF assms] updateEnrollProgress_def emit_def)

lemma fail_step_fields:
  assumes "\<not> capture_ok eng reply"
  shows "enrollCount (captureEnrollImage eng frame reply s) = enrollCount s"
    and "\<exists>text. effects (captureEnrollImage eng frame reply s) =
           effects s @ [capture_request eng (enrollEmployeeId s) frame,
                        ShowMessage ''enroll-result'' text ''error'']"
proof -
  obtain msg where t: "captureEnrollImage eng frame reply s =
           enroll_failed msg (emit [capture_request eng (enrollEmployeeId s) frame] s)"
    using capture_fail_step [OF assms] by blast
  show "enrollCount (captureEnrollImage eng frame reply s) = enrollCount s"
    by (simp add: t enroll_failed_def showMessage_def emit_def)
  have "effects (captureEnrollImage eng frame reply s) =
           effects s @ [capture_request eng (enrollEmployeeId s) frame,
                        ShowMessage ''enroll-result'' msg ''error'']"
    by (simp add: t enroll_failed_def showMessage_def emit_def)
  then show "\<exists>text. effects (captureEnrollImage eng frame reply s) =
           effects s @ [capture_request eng (enrollEmployeeId s) frame,
                        ShowMessage ''enroll-result'' text ''error'']"
    by blast
qed

lemma enroll_loop_all_ok:
  "enrollCount s = i \<Longrightarrow> i \<le> ENROLL_TARGET \<Longrightarrow>
   (\<forall>j. i \<le> j \<and> j < ENROLL_TARGET \<longrightarrow> capture_ok eng (snd (world j))) \<Longrightarrow>
   enrollCount (enroll_loop eng world i s) = ENROLL_TARGET \<and>
   effects (enroll_loop eng world i s) =
     effects s @ concat (map (capture_round eng (enrollEmployeeId s) world) [i..<ENROLL_TARGET])"
proof (induction eng world i s rule: enroll_loop.induct)
  case (1 eng world i s)
  show ?case
  proof (cases "i < ENROLL_TARGET")
    case False
    with "1.prems" have "i = ENROLL_TARGET" by simp
    with "1.prems" show ?thesis by (simp add: enroll_loop.simps)
  next
    case True
    define s1 where "s1 = captureEnrollImage eng (fst (world i)) (snd (world i)) (emit [Delay 500] s)"
    from True "1.prems" have ok: "capture_ok eng (snd (world i))" by simp
    have c: "enrollCount s1 = i + 1"
      using "1.prems"(1) by (simp add: s1_def ok_step_fields [OF ok] emit_def)
    have ident: "enrollEmployeeId s1 = enrollEmployeeId s"
      by (simp add: s1_def ok_step_fields [OF ok] emit_def)
    have e: "effects s1 = effects s @ capture_round eng (enrollEmployeeId s) world i"
      by (simp add: s1_def ok_step_fields [OF ok] emit_def capture_round_def)
    have loop: "enroll_loop eng world i s = enroll_loop eng world (i + 1) s1"
      using True c by (subst enroll_loop.simps) (simp add: s1_def [symmetric] Let_def)
    have nxt: "\<forall>j. i + 1 \<le> j \<and> j < ENROLL_TARGET \<longrightarrow> capture_ok eng (snd (world j))"
      using "1.prems"(3) by simp
    have "\<not> enrollCount s1 \<noteq> i + 1" using c by simp
    from "1.IH" [OF True s1_def this c _ nxt] True
    have ih: "enrollCount (enroll_loop eng world (i + 1) s1) = ENROLL_TARGET \<and>
      effects (enroll_loop eng world (i + 1) s1) =
        effects s1 @ concat (map (capture_round eng (enrollEmployeeId s1) world) [i + 1..<ENROLL_TARGET])"
      by simp
    from True have "[i..<ENROLL_TARGET] = i # [i + 1..<ENROLL_TARGET]"
      by (simp add: upt_conv_Cons)
    with ih show ?thesis by (simp add: loop e ident)
  qed
qed

lemma enroll_loop_first_failure:
  "enrollCount s = i \<Longrightarrow> i \<le> j \<Longrightarrow> j < ENROLL_TARGET \<Longrightarrow>
   (\<forall>m. i \<le> m \<and> m < j \<longrightarrow> capture_ok eng (snd (world m))) \<Longrightarrow>
   \<not> capture_ok eng (snd (world j)) \<Longrightarrow>
   enrollCount (enroll_loop eng world i s) = j \<and>
   (\<exists>text. effects (enroll_loop eng world i s) =
      effects s @ concat (map (capture_round eng (enrollEmployeeId s) world) [i..<j]) @
      capture_round eng (enrollEmployeeId s) world j @
      [ShowMessage ''enroll-result'' text ''error''])"
proof (induction eng world i s rule: enroll_loop.induct)
  case (1 eng world i s)
  from "1.prems" have True: "i < ENROLL_TARGET" by simp
  define s1 where "s1 = captureEnrollImage eng (fst (world i)) (snd (world i)) (emit [Delay 500] s)"
  show ?case
  proof (cases "i = j")
    case True
    with "1.prems" have bad: "\<not> capture_ok eng (snd (world i))" by simp
    have c: "enrollCount s1 = i"
      using "1.prems"(1) by (simp add: s1_def fail_step_fields [OF bad] emit_def)
    obtain msg where e: "effects s1 = effects s @ capture_round eng (enrollEmployeeId s) world i @
        [ShowMessage ''enroll-result'' msg ''error'']"
      using fail_step_fields(2) [OF bad, of "fst (world i)" "emit [Delay 500] s"]
      by (auto simp: s1_def emit_def capture_round_def)
    have loop: "enroll_loop eng world i s = s1"
      using \<open>i < ENROLL_TARGET\<close> c by (subst enroll_loop.simps) (simp add: s1_def [symmetric] Let_def)
    have "enrollCount (enroll_loop eng world i s) = j"
      unfolding loop using c True by simp
    moreover have "effects (enroll_loop eng world i s) =
        effects s @ concat (map (capture_round eng (enrollEmployeeId s) world) [i..<j]) @
        capture_round eng (enrollEmployeeId s) world j @
        [ShowMessage ''enroll-result'' msg ''error'']"
      unfolding loop using e True by simp
    ultimately show ?thesis by blast
  next
    case False
    with "1.prems" have lt: "i < j" by simp
    with "1.prems" have ok: "capture_ok eng (snd (world i))" by simp
    have c: "enrollCount s1 = i + 1"
      using "1.prems"(1) by (simp add: s1_def ok_step_fields [OF ok] emit_def)
    have ident: "enrollEmployeeId s1 = enrollEmployeeId s"
      by (simp add: s1_def ok_step_fields [OF ok] emit_def)
    have e: "effects s1 = effects s @ capture_round eng (enrollEmployeeId s) world i"
      by (simp add: s1_def ok_step_fields [OF ok] emit_def capture_round_def)
    have loop: "enroll_loop eng world i s = enroll_loop eng world (i + 1) s1"
      using \<open>i < ENROLL_TARGET\<close> c by (subst enroll_loop.simps) (simp add: s1_def [symmetric] Let_def)
    have nxt: "\<forall>m. i + 1 \<le> m \<and> m < j \<longrightarrow> capture_ok eng (snd (world m))"
      using "1.prems"(4) by simp
    have le: "i + 1 \<le> j" using lt by simp
    have "\<not> enrollCount s1 \<noteq> i + 1" using c by simp
    from "1.IH" [OF \<open>i < ENROLL_TARGET\<close> s1_def this c le "1.prems"(3) nxt "1.prems"(5)]
    obtain msg where ih: "enrollCount (enroll_loop eng world (i + 1) s1) = j"
      "effects (enroll_loop eng world (i + 1) s1) =
        effects s1 @ concat (map (capture_round eng (enrollEmployeeId s1) world) [i + 1..<j]) @
        capture_round eng (enrollEmployeeId s1) world j @
        [ShowMessage ''enroll-result'' msg ''error'']"
      by blast
    from lt have "[i..<j] = i # [i + 1..<j]"
      by (simp add: upt_conv_Cons)
    with ih have "effects (enroll_loop eng world i s) =
        effects s @ concat (map (capture_round eng (enrollEmployeeId s) world) [i..<j]) @
        capture_round eng (enrollEmployeeId s) world j @
        [ShowMessage ''enroll-result'' msg ''error'']"
      unfolding loop by (simp add: e ident)
    moreover have "enrollCount (enroll_loop eng world i s) = j"
      unfolding loop by (rule ih(1))
    ultimately show ?thesis by blast
  qed
qed

lemma requests_rounds:
  "requests (concat (map (capture_round eng ident world) xs)) =
     map (\<lambda>i. capture_request eng ident (fst (world i))) xs"
  by (induction xs) (simp_all add: requests_def capture_round_def capture_request_def)

lemma no_message_in_rounds:
  "ShowMessage el m t \<notin> set (concat (map (capture_round eng ident world) xs))"
  by (induction xs) (simp_all add: capture_round_def capture_request_def)

lemma new_effects_append: "effects s' = effects s @ es \<Longrightarrow> new_effects s s' = es"
  by (simp add: new_effects_def)

lemma start_effects:
  assumes "\<not> not_selected eng (enrollEmployeeId s)" and "isWebcamActive s"
  shows "\<exists>s1. enrollCount s1 = 0 \<and> enrollEmployeeId s1 = enrollEmployeeId s \<and>
           effects s1 = effects s @ [ShowMessage ''enroll-result'' msg_collecting ''info''] \<and>
           effects (startEnrollCapture eng world s) =
             effects (enroll_loop eng world 0 s1) @
             (if enrollCount (enroll_loop eng world 0 s1) = ENROLL_TARGET
              then [ShowMessage ''enroll-result'' msg_enroll_done ''success''] else [])"
proof -
  define s1 where "s1 = showMessage ''enroll-result'' msg_collecting ''info''
                    (s\<lparr>enrollCount := 0, enroll_progress_show := True,
                       btn_enroll_capture_disabled := True\<rparr>)"
  have "enrollCount s1 = 0" "enrollEmployeeId s1 = enrollEmployeeId s"
    "effects s1 = effects s @ [ShowMessage ''enroll-result'' msg_collecting ''info'']"
    by (simp_all add: s1_def showMessage_def emit_def)
  moreover have "effects (startEnrollCapture eng world s) =
             effects (enroll_loop eng world 0 s1) @
             (if enrollCount (enroll_loop eng world 0 s1) = ENROLL_TARGET
              then [ShowMessage ''enroll-result'' msg_enroll_done ''success''] else [])"
    using assms
    by (simp add: startEnrollCapture_def s1_def [symmetric] Let_def effects_showMessage)
  ultimately show ?thesis by blast
qed

lemma start_all_ok:
  assumes sel: "\<not> not_selected eng (enrollEmployeeId s)" and cam: "isWebcamActive s"
    and ok: "\<forall>i<ENROLL_TARGET. capture_ok eng (snd (world i))"
  shows "new_effects s (startEnrollCapture eng world s) =
     ShowMessage ''enroll-result'' msg_collecting ''info'' #
     concat (map (capture_round eng (enrollEmployeeId s) world) [0..<ENROLL_TARGET]) @
     [ShowMessage ''enroll-result'' msg_enroll_done ''success'']"
proof -
  obtain s1 where s1: "enrollCount s1 = 0" "enrollEmployeeId s1 = enrollEmployeeId s"
      "effects s1 = effects s @ [ShowMessage ''enroll-result'' msg_collecting ''info'']"
      "effects (startEnrollCapture eng world s) =
             effects (enroll_loop eng world 0 s1) @
             (if enrollCount (enroll_loop eng world 0 s1) = ENROLL_TARGET
              then [ShowMessage ''enroll-result'' msg_enroll_done ''success''] else [])"
    using start_effects [OF sel cam] by blast
  from ok have "\<forall>j. 0 \<le> j \<and> j < ENROLL_TARGET \<longrightarrow> capture_ok eng (snd (world j))" by simp
  from enroll_loop_all_ok [OF s1(1) _ this]
  have l: "enrollCount (enroll_loop eng world 0 s1) = ENROLL_TARGET"
    "effects (enroll_loop eng world 0 s1) =
       effects s1 @ concat (map (capture_round eng (enrollEmployeeId s1) world) [0..<ENROLL_TARGET])"
    by simp_all
  show ?thesis
    by (rule new_effects_append) (simp add: s1 l)
qed

lemma start_all_ok_effects:
  assumes sel: "\<not> not_selected eng (enrollEmployeeId s)" and cam: "isWebcamActive s"
    and ok: "\<forall>i<ENROLL_TARGET. capture_ok eng (snd (world i))"
  shows "effects (startEnrollCapture eng world s) =
     effects s @
     ShowMessage ''enroll-result'' msg_collecting ''info'' #
     concat (map (capture_round eng (enrollEmployeeId s) world) [0..<ENROLL_TARGET]) @
     [ShowMessage ''enroll-result'' msg_enroll_done ''success'']"
proof -
  obtain s1 where s1: "enrollCount s1 = 0" "enrollEmployeeId s1 = enrollEmployeeId s"
      "effects s1 = effects s @ [ShowMessage ''enroll-result'' msg_collecting ''info'']"
      "effects (startEnrollCapture eng world s) =
             effects (enroll_loop eng world 0 s1) @
             (if enrollCount (enroll_loop eng world 0 s1) = ENROLL_TARGET
              then [ShowMessage ''enroll-result'' msg_enroll_done ''success''] else [])"
    using start_effects [OF sel cam] by blast
  from ok have "\<forall>j. 0 \<le> j \<and> j < ENROLL_TARGET \<longrightarrow> capture_ok eng (snd (world j))" by simp
  from enroll_loop_all_ok [OF s1(1) _ this]
  have l: "enrollCount (enroll_loop eng world 0 s1) = ENROLL_TARGET"
    "effects (enroll_loop eng world 0 s1) =
       effects s1 @ concat (map (capture_round eng (enrollEmployeeId s1) world) [0..<ENROLL_TARGET])"
    by simp_all
  show ?thesis
    by (simp add: s1 l)
qed

lemma start_first_failure:
  assumes sel: "\<not> not_selected eng (enrollEmployeeId s)" and cam: "isWebcamActive s"
    and j: "j < ENROLL_TARGET" and ok: "\<forall>i<j. capture_ok eng (snd (world i))"
    and bad: "\<not> capture_ok eng (snd (world j))"
  shows "\<exists>text. new_effects s (startEnrollCapture eng world s) =
     ShowMessage ''enroll-result'' msg_collecting ''info'' #
     concat (map (capture_round eng (enrollEmployeeId s) world) [0..<j]) @
     capture_round eng (enrollEmployeeId s) world j @
     [ShowMessage ''enroll-result'' text ''error'']"
proof -
  obtain s1 where s1: "enrollCount s1 = 0" "enrollEmployeeId s1 = enrollEmployeeId s"
      "effects s1 = effects s @ [ShowMessage ''enroll-result'' msg_collecting ''info'']"
      "effects (startEnrollCapture eng world s) =
             effects (enroll_loop eng world 0 s1) @
             (if enrollCount (enroll_loop eng world 0 s1) = ENROLL_TARGET
              then [ShowMessage ''enroll-result'' msg_enroll_done ''success''] else [])"
    using start_effects [OF sel cam] by blast
  from ok have "\<forall>m. 0 \<le> m \<and> m < j \<longrightarrow> capture_ok eng (snd (world m))" by simp
  from enroll_loop_first_failure [OF s1(1) _ j this bad]
  obtain msg where l: "enrollCount (enroll_loop eng world 0 s1) = j"
    "effects (enroll_loop eng world 0 s1) =
       effects s1 @ concat (map (capture_round eng (enrollEmployeeId s1) world) [0..<j]) @
       capture_round eng (enrollEmployeeId s1) world j @
       [ShowMessage ''enroll-result'' msg ''error'']"
    by auto
  have "new_effects s (startEnrollCapture eng world s) =
     ShowMessage ''enroll-result'' msg_collecting ''info'' #
     concat (map (capture_round eng (enrollEmployeeId s) world) [0..<j]) @
     capture_round eng (enrollEmployeeId s) world j @
     [ShowMessage ''enroll-result'' msg ''error'']"
    using j by (intro new_effects_append) (simp add: s1 l)
  then show ?thesis by blast
qed

lemma round_explicit:
  "(\<lambda>i. [Delay 500, Fetch ''POST'' (''/api/employees/'' @ num_toString eng ident @ ''/capture'')
                          (JsonBody [(''image'', fst (world i))])]) =
   capture_round eng (Some ident) world"
  by (rule ext) (simp add: capture_round_def capture_request_def capture_url_def id_text_def)

lemma capture_ok_explicit:
  "(\<exists>data ok. reply = Resolved data \<and> get eng data ''success'' = Inr ok \<and> truthy eng ok) \<longleftrightarrow>
   capture_ok eng reply"
  by (cases reply) (auto simp: capture_ok_def split: sum.splits)

text \<open>
  Claim C5. When an employee is selected, the webcam is on and every capture succeeds
  (its request resolves with a truthy \<open>success\<close>), \<open>startEnrollCapture\<close> adds to the
  log the progress message, then ten times a delay of 500 ms followed by one request
  \<open>POST /api/employees/<id>/capture\<close> for the selected employee with the frame of
  that round, then the completion message: exactly ten requests.
\<close>

theorem enroll_issues_ten_captures:
  assumes "enrollEmployeeId s = Some ident"
    and "\<not> num_is_zero eng ident" and "\<not> num_is_nan eng ident"
    and "isWebcamActive s"
    and "\<forall>i<10. \<exists>data ok. snd (world i) = Resolved data \<and>
                          get eng data ''success'' = Inr ok \<and> truthy eng ok"
  shows "effects (startEnrollCapture eng world s) =
           effects s @
           ShowMessage ''enroll-result'' msg_collecting ''info'' #
           concat (map (\<lambda>i. [Delay 500,
                              Fetch ''POST''
                                (''/api/employees/'' @ num_toString eng ident @ ''/capture'')
                                (JsonBody [(''image'', fst (world i))])])
                     [0..<10]) @
           [ShowMessage ''enroll-result'' msg_enroll_done ''success''] \<and>
         length (requests (new_effects s (startEnrollCapture eng world s))) = 10"
proof -
  from assms(1-3) have sel: "\<not> not_selected eng (enrollEmployeeId s)"
    by (simp add: not_selected_def)
  from assms(5) have ok: "\<forall>i<ENROLL_TARGET. capture_ok eng (snd (world i))"
    unfolding capture_ok_explicit by (simp add: ENROLL_TARGET_def)
  from start_all_ok_effects [OF sel assms(4) ok]
  have e: "effects (startEnrollCapture eng world s) =
     effects s @
     ShowMessage ''enroll-result'' msg_collecting ''info'' #
     concat (map (capture_round eng (Some ident) world) [0..<10]) @
     [ShowMessage ''enroll-result'' msg_enroll_done ''success'']"
    by (simp add: ENROLL_TARGET_def assms(1))
  then have "requests (new_effects s (startEnrollCapture eng world s)) =
     requests (concat (map (capture_round eng (Some ident) world) [0..<10]))"
    by (simp add: new_effects_def requests_def)
  then have "length (requests (new_effects s (startEnrollCapture eng world s))) = 10"
    unfolding requests_rounds by simp
  with e show ?thesis unfolding round_explicit by simp
qed

text \<open>
  Employee 7 is selected, the webcam is on, the server accepts every capture: ten
  times the delay and \<open>POST /api/employees/7/capture\<close>.
\<close>

theorem enroll_issues_ten_captures_witness:
  "effects (startEnrollCapture int_engine
      (\<lambda>i. (''data:image/jpeg;base64,AA'', Resolved (JObj [(''success'', JBool True)])))
      (blank_page\<lparr>isWebcamActive := True, enrollEmployeeId := Some 7\<rparr>)) =
   ShowMessage ''enroll-result'' msg_collecting ''info'' #
   concat (replicate 10
     [Delay 500,
      Fetch ''POST'' ''/api/employees/7/capture''
        (JsonBody [(''image'', ''data:image/jpeg;base64,AA'')])]) @
   [ShowMessage ''enroll-result'' msg_enroll_done ''success'']"
proof -
  have c: "map (\<lambda>i::nat. [Delay 500,
                Fetch ''POST'' (''/api/employees/'' @ num_toString int_engine 7 @ ''/capture'')
                  (JsonBody [(''image'', ''data:image/jpeg;base64,AA'')])]) [0..<10] =
           replicate 10 [Delay 500,
                Fetch ''POST'' ''/api/employees/7/capture''
                  (JsonBody [(''image'', ''data:image/jpeg;base64,AA'')])]"
    by (simp add: map_replicate_const int_engine_def show_int_def show_nat.simps)
  have "effects (blank_page\<lparr>isWebcamActive := True, enrollEmployeeId := Some 7\<rparr>) = []"
    by (simp add: blank_page_def)
  with enroll_issues_ten_captures [of
      "blank_page\<lparr>isWebcamActive := True, enrollEmployeeId := Some 7\<rparr>" 7 int_engine
      "\<lambda>i. (''data:image/jpeg;base64,AA'', Resolved (JObj [(''success'', JBool True)]))",
      THEN conjunct1]
  show ?thesis
    unfolding c [symmetric] by (simp add: int_engine_def)
qed

lemma done_not_in_failed_run:
  "ShowMessage ''enroll-result'' msg_enroll_done ''success'' \<notin>
   set (ShowMessage ''enroll-result'' msg_collecting ''info'' #
        concat (map (capture_round eng ident world) [0..<j]) @
        capture_round eng ident world j @
        [ShowMessage ''enroll-result'' msg ''error''])"
  using no_message_in_rounds [of "''enroll-result''" msg_enroll_done "''success''" eng ident world "[0..<j]"]
  by (simp add: capture_round_def capture_request_def)

text \<open>
  Claim C10. With an employee selected and the webcam on: when capture \<open>j\<close> is the
  first that fails, the run has sent the requests of the captures \<open>0\<close> to \<open>j\<close>
  and no other; and the completion message is among the effects of the run exactly
  when all ten captures succeeded.
\<close>

theorem enroll_stops_at_first_failure:
  assumes sel: "\<not> not_selected eng (enrollEmployeeId s)" and cam: "isWebcamActive s"
  shows "(\<forall>j<10. (\<forall>i<j. capture_ok eng (snd (world i))) \<and> \<not> capture_ok eng (snd (world j)) \<longrightarrow>
            requests (new_effects s (startEnrollCapture eng world s)) =
              map (\<lambda>i. capture_request eng (enrollEmployeeId s) (fst (world i))) [0..<Suc j]) \<and>
         (ShowMessage ''enroll-result'' msg_enroll_done ''success''
            \<in> set (new_effects s (startEnrollCapture eng world s)) \<longleftrightarrow>
          (\<forall>i<10. capture_ok eng (snd (world i))))"
proof (intro conjI allI impI)
  fix j :: nat
  assume j: "j < 10"
    and f: "(\<forall>i<j. capture_ok eng (snd (world i))) \<and> \<not> capture_ok eng (snd (world j))"
  from j have j': "j < ENROLL_TARGET" by (simp add: ENROLL_TARGET_def)
  from f have ok: "\<forall>i<j. capture_ok eng (snd (world i))"
    and bad: "\<not> capture_ok eng (snd (world j))" by simp_all
  obtain msg where n: "new_effects s (startEnrollCapture eng world s) =
     ShowMessage ''enroll-result'' msg_collecting ''info'' #
     concat (map (capture_round eng (enrollEmployeeId s) world) [0..<j]) @
     capture_round eng (enrollEmployeeId s) world j @
     [ShowMessage ''enroll-result'' msg ''error'']"
    using start_first_failure [OF sel cam j' ok bad] by blast
  have "requests (new_effects s (startEnrollCapture eng world s)) =
     requests (concat (map (capture_round eng (enrollEmployeeId s) world) [0..<j])) @
     [capture_request eng (enrollEmployeeId s) (fst (world j))]"
    unfolding n by (simp add: requests_def capture_round_def capture_request_def)
  then show "requests (new_effects s (startEnrollCapture eng world s)) =
              map (\<lambda>i. capture_request eng (enrollEmployeeId s) (fst (world i))) [0..<Suc j]"
    unfolding requests_rounds by simp
next
  show "ShowMessage ''enroll-result'' msg_enroll_done ''success''
            \<in> set (new_effects s (startEnrollCapture eng world s)) \<longleftrightarrow>
          (\<forall>i<10. capture_ok eng (snd (world i)))"
  proof (cases "\<forall>i<10. capture_ok eng (snd (world i))")
    case True
    then have "\<forall>i<ENROLL_TARGET. capture_ok eng (snd (world i))"
      by (simp add: ENROLL_TARGET_def)
    from start_all_ok [OF sel cam this] True show ?thesis by simp
  next
    case False
    then have "\<exists>j. j < 10 \<and> \<not> capture_ok eng (snd (world j))" by blast
    then obtain j where j: "j < 10 \<and> \<not> capture_ok eng (snd (world j))"
      and least: "\<forall>i<j. \<not> (i < 10 \<and> \<not> capture_ok eng (snd (world i)))"
      unfolding exists_least_iff [of "\<lambda>j. j < 10 \<and> \<not> capture_ok eng (snd (world j))"]
      by blast
    from j have j': "j < ENROLL_TARGET" and bad: "\<not> capture_ok eng (snd (world j))"
      by (simp_all add: ENROLL_TARGET_def)
    from j least have ok: "\<forall>i<j. capture_ok eng (snd (world i))" by auto
    obtain msg where n: "new_effects s (startEnrollCapture eng world s) =
       ShowMessage ''enroll-result'' msg_collecting ''info'' #
       concat (map (capture_round eng (enrollEmployeeId s) world) [0..<j]) @
       capture_round eng (enrollEmployeeId s) world j @
       [ShowMessage ''enroll-result'' msg ''error'']"
      using start_first_failure [OF sel cam j' ok bad] by blast
    have "ShowMessage ''enroll-result'' msg_enroll_done ''success''
            \<notin> set (new_effects s (startEnrollCapture eng world s))"
      unfolding n by (rule done_not_in_failed_run)
    with False show ?thesis by simp
  qed
qed

text \<open>
  The first three captures succeed, then the network fails: four requests are sent,
  and the completion message is not shown.
\<close>

theorem enroll_stops_at_first_failure_witness:
  "requests (new_effects
      (blank_page\<lparr>isWebcamActive := True, enrollEmployeeId := Some 7\<rparr>)
      (startEnrollCapture int_engine
         (\<lambda>i. (''data:image/jpeg;base64,AA'',
                if i < 3 then Resolved (JObj [(''success'', JBool True)])
                else Rejected (JsError ''TypeError'' ''Failed to fetch'')))
         (blank_page\<lparr>isWebcamActive := True, enrollEmployeeId := Some 7\<rparr>))) =
     replicate 4 (capture_request int_engine (Some 7) ''data:image/jpeg;base64,AA'') \<and>
   ShowMessage ''enroll-result'' msg_enroll_done ''success'' \<notin>
     set (new_effects
      (blank_page\<lparr>isWebcamActive := True, enrollEmployeeId := Some 7\<rparr>)
      (startEnrollCapture int_engine
         (\<lambda>i. (''data:image/jpeg;base64,AA'',
                if i < 3 then Resolved (JObj [(''success'', JBool True)])
                else Rejected (JsError ''TypeError'' ''Failed to fetch'')))
         (blank_page\<lparr>isWebcamActive := True, enrollEmployeeId := Some 7\<rparr>)))"
proof -
  let ?s = "blank_page\<lparr>isWebcamActive := True, enrollEmployeeId := Some 7\<rparr>"
  let ?w = "\<lambda>i::nat. (''data:image/jpeg;base64,AA'',
                if i < 3 then Resolved (JObj [(''success'', JBool True)])
                else Rejected (JsError ''TypeError'' ''Failed to fetch'') :: int reply)"
  have sel: "\<not> not_selected int_engine (enrollEmployeeId ?s)"
    by (simp add: not_selected_def int_engine_def)
  have cam: "isWebcamActive ?s" by simp
  note t = enroll_stops_at_first_failure [OF sel cam, of ?w]
  have ok: "capture_ok int_engine (snd (?w i)) \<longleftrightarrow> i < 3" for i
    by (simp add: capture_ok_def)
  have "(\<forall>i<3. capture_ok int_engine (snd (?w i))) \<and> \<not> capture_ok int_engine (snd (?w 3))"
    unfolding ok by simp
  with t [THEN conjunct1, rule_format, of 3]
  have r: "requests (new_effects ?s (startEnrollCapture int_engine ?w ?s)) =
    map (\<lambda>i. capture_request int_engine (enrollEmployeeId ?s) (fst (?w i))) [0..<Suc 3]"
    by simp
  have "map (\<lambda>i. capture_request int_engine (enrollEmployeeId ?s) (fst (?w i))) [0..<Suc 3] =
    replicate 4 (capture_request int_engine (Some 7) ''data:image/jpeg;base64,AA'')"
    by (simp add: map_replicate_const)
  with r have r': "requests (new_effects ?s (startEnrollCapture int_engine ?w ?s)) =
    replicate 4 (capture_request int_engine (Some 7) ''data:image/jpeg;base64,AA'')"
    by simp
  have "\<not> (\<forall>i<10. capture_ok int_engine (snd (?w i)))"
    unfolding ok by (simp add: not_less) (rule exI [of _ 3], simp)
  with t [THEN conjunct2]
  have "ShowMessage ''enroll-result'' msg_enroll_done ''success'' \<notin>
     set (new_effects ?s (startEnrollCapture int_engine ?w ?s))"
    by simp
  with r' show ?thesis by simp
qed

subsection \<open>A selection that outlives the list\<close>







section \<open>Properties of the recognition core as specified\<close>

lemma active_retrain_request: "active_artifact (snd (retrain_request c)) = active_artifact c"
  by (simp add: retrain_request_def)

lemma active_retrain_failed: "active_artifact (snd (retrain_finish (Inl e) c)) = active_artifact c"
  by (simp add: retrain_finish_def)

lemma active_unchanged:
  "\<forall>e \<in> set events. \<not> trainer_succeeded e \<Longrightarrow>
   active_artifact (core_after events c) = active_artifact c"
proof (induction events arbitrary: c)
  case Nil
  show ?case by simp
next
  case (Cons e events)
  then have rest: "\<forall>e \<in> set events. \<not> trainer_succeeded e"
    and this_one: "\<not> trainer_succeeded e" by simp_all
  show ?case
  proof (cases e)
    case RetrainRequested
    with Cons.IH [OF rest] show ?thesis by (simp add: active_retrain_request)
  next
    case (TrainerFinished trained)
    with this_one obtain err where "trained = Inl err" by (cases trained) simp_all
    with TrainerFinished Cons.IH [OF rest] show ?thesis by (simp add: active_retrain_failed)
  qed
qed

text \<open>
  Claim C8. Whatever has happened to the core since startup, as long as no run of the
  Trainer has succeeded (so no artifact has been published), \<open>recognize\<close> returns
  \<open>NotReady\<close> for every image: an error value of its own, distinct from a result
  with the decision \<open>Unknown\<close>.
\<close>

theorem not_ready_before_first_publish:
  assumes "\<forall>e \<in> set events. \<not> trainer_succeeded e"
  shows "recognize encode clears (core_after events startup) img = Inl NotReady"
proof -
  have "active_artifact (core_after events startup) = None"
    using active_unchanged [OF assms, of startup] by (simp add: startup_def)
  then show ?thesis by (simp add: recognize_def getActive_def)
qed

text \<open>A retrain was requested and failed for lack of data; then an image arrives.\<close>

theorem not_ready_before_first_publish_witness:
  "recognize (\<lambda>i :: nat. Inr i) (\<lambda>a b :: nat. b \<le> a)
     (core_after [RetrainRequested, TrainerFinished (Inl InsufficientData)]
        (startup :: (nat, nat, nat, nat) core)) 0 = Inl NotReady"
  using not_ready_before_first_publish [of
      "[RetrainRequested, TrainerFinished (Inl InsufficientData)] :: (nat, nat, nat, nat) core_event list"
      "\<lambda>i :: nat. Inr i" "\<lambda>a b :: nat. b \<le> a" 0]
  by simp

text \<open>
  Claim C4. From a core in which no retrain is running: a first \<open>retrain()\<close> request
  is accepted and takes the lock; a second request that arrives before the first run
  has ended is rejected with \<open>RetrainInProgress\<close> and changes nothing (it is neither
  queued nor started); the first run then ends, publishes its artifact, returns the
  artifact's metrics and releases the lock.
\<close>

theorem second_retrain_rejected:
  assumes "\<not> retrain_running c"
  shows "(let (r1, c1) = retrain_request c;
              (r2, c2) = retrain_request c1;
              (r3, c3) = retrain_finish (Inr a) c2
          in r1 = Inr () \<and> retrain_running c1 \<and>
             r2 = Inl RetrainInProgress \<and> c2 = c1 \<and>
             r3 = Inr (artifact_metrics a) \<and> getActive c3 = Inr a \<and> \<not> retrain_running c3)"
  using assms
  by (simp add: retrain_request_def retrain_finish_def publish_def getActive_def)

text \<open>Two requests back to back after startup; the run produces an artifact.\<close>

theorem second_retrain_rejected_witness:
  "fst (retrain_request (snd (retrain_request (startup :: (nat, nat, nat, nat) core)))) =
     Inl RetrainInProgress \<and>
   getActive (snd (retrain_finish
       (Inr \<lparr>basis = (\<lambda>v. v), classifier = (\<lambda>p. (p, p)), decision_threshold = 5,
             artifact_metrics = \<lparr>employee_count = 2, sample_count = 20, threshold_value = 5\<rparr>\<rparr>)
       (snd (retrain_request (snd (retrain_request (startup :: (nat, nat, nat, nat) core))))))) =
     Inr \<lparr>basis = (\<lambda>v. v), classifier = (\<lambda>p. (p, p)), decision_threshold = 5,
          artifact_metrics = \<lparr>employee_count = 2, sample_count = 20, threshold_value = 5\<rparr>\<rparr>"
  using second_retrain_rejected [of "startup :: (nat, nat, nat, nat) core"
      "\<lparr>basis = (\<lambda>v. v), classifier = (\<lambda>p. (p, p)), decision_threshold = 5,
        artifact_metrics = \<lparr>employee_count = 2, sample_count = 20, threshold_value = 5\<rparr>\<rparr>"]
  by (simp add: startup_def Let_def split_beta retrain_request_def retrain_finish_def
      publish_def getActive_def)



lemma train_metrics:
  assumes "train fit calibrate min_samples ts = Inr a"
  shows "threshold_value (artifact_metrics a) = decision_threshold a"
    and "employee_count (artifact_metrics a) = length (remdups (map fst (eligible min_samples ts)))"
    and "sample_count (artifact_metrics a) = length (eligible min_samples ts)"
    and "2 \<le> employee_count (artifact_metrics a)"
  using assms
  by (auto simp: train_def Let_def split: if_splits prod.splits)

lemma retrain_success:
  assumes "retrain fit calibrate min_samples ts c = (Inr m, c')"
  shows "\<exists>a. train fit calibrate min_samples ts = Inr a \<and> artifact_metrics a = m \<and>
             getActive c' = Inr a"
proof (cases "retrain_running c")
  case True
  with assms show ?thesis by (simp add: retrain_def retrain_request_def)
next
  case False
  show ?thesis
  proof (cases "train fit calibrate min_samples ts")
    case (Inl e)
    with assms False show ?thesis
      by (simp add: retrain_def retrain_request_def retrain_finish_def)
  next
    case (Inr a)
    with assms False show ?thesis
      by (auto simp: retrain_def retrain_request_def retrain_finish_def publish_def getActive_def)
  qed
qed

text \<open>
  Claim C1. Every \<open>retrain()\<close> call that succeeds returns the metrics of the artifact
  it has published, and they hold the employee count (the employees with eligible
  samples, at least two), the total count of the samples trained on, and the threshold
  chosen for that artifact.
\<close>

theorem retrain_returns_metrics:
  assumes "retrain fit calibrate min_samples ts c = (Inr m, c')"
  shows "\<exists>a. getActive c' = Inr a \<and> artifact_metrics a = m \<and>
             threshold_value m = decision_threshold a \<and>
             employee_count m = length (remdups (map fst (eligible min_samples ts))) \<and>
             2 \<le> employee_count m \<and>
             sample_count m = length (eligible min_samples ts)"
proof -
  from retrain_success [OF assms] obtain a
    where t: "train fit calibrate min_samples ts = Inr a"
      and m: "artifact_metrics a = m" and g: "getActive c' = Inr a"
    by blast
  from train_metrics [OF t] m g show ?thesis by auto
qed

text \<open>
  Employees 1 and 2 have two samples each, employee 3 has one; two samples are
  required. The call succeeds with two employees, four samples and the threshold 5 of
  the artifact that is active afterwards.
\<close>

theorem retrain_returns_metrics_witness:
  "fst (retrain (\<lambda>samples. (\<lambda>v :: nat. v, \<lambda>p :: nat. (1 :: nat, p))) (\<lambda>b cl samples. 5 :: nat) 2
          [(1, 10), (1, 11), (2, 20), (2, 21), (3, 30)] startup) =
     Inr \<lparr>employee_count = 2, sample_count = 4, threshold_value = 5\<rparr> \<and>
   (\<exists>a. getActive (snd (retrain (\<lambda>samples. (\<lambda>v :: nat. v, \<lambda>p :: nat. (1 :: nat, p)))
                            (\<lambda>b cl samples. 5 :: nat) 2
                            [(1, 10), (1, 11), (2, 20), (2, 21), (3, 30)] startup)) = Inr a \<and>
        artifact_metrics a = \<lparr>employee_count = 2, sample_count = 4, threshold_value = 5\<rparr> \<and>
        decision_threshold a = 5)"
proof -
  let ?r = "retrain (\<lambda>samples. (\<lambda>v :: nat. v, \<lambda>p :: nat. (1 :: nat, p))) (\<lambda>b cl samples. 5 :: nat) 2
          [(1, 10), (1, 11), (2, 20), (2, 21), (3, 30)] (startup :: (nat, nat, nat, nat) core)"
  let ?m = "\<lparr>employee_count = 2, sample_count = 4, threshold_value = 5 :: nat\<rparr>"
  have f: "fst ?r = Inr ?m"
    by (simp add: retrain_def retrain_request_def retrain_finish_def train_def eligible_def
        startup_def Let_def)
  then have "?r = (Inr ?m, snd ?r)" by (metis prod.collapse)
  from retrain_returns_metrics [OF this] obtain a
    where "getActive (snd ?r) = Inr a" "artifact_metrics a = ?m"
      "threshold_value ?m = decision_threshold a"
    by blast
  then have "\<exists>a. getActive (snd ?r) = Inr a \<and> artifact_metrics a = ?m \<and> decision_threshold a = 5"
    by auto
  with f show ?thesis by blast
qed

end
